theory Spec2Isabelle
  imports Main "HOL-Library.Sublist"
begin

section \<open>Go library functions used by the agent\<close>

text \<open>
  Go strings and byte slices are modelled as \<open>string\<close> (a list of bytes).  The
  functions below are the ones of packages \<open>strings\<close>, \<open>bytes\<close> and \<open>strconv\<close> that
  the agent calls; they keep their Go names.
\<close>

subsection \<open>strings / bytes\<close>

definition HasPrefix :: "string \<Rightarrow> string \<Rightarrow> bool" where
  "HasPrefix s p = prefix p s"

definition HasSuffix :: "string \<Rightarrow> string \<Rightarrow> bool" where
  "HasSuffix s p = suffix p s"

definition Contains :: "string \<Rightarrow> string \<Rightarrow> bool" where
  "Contains s sub = sublist sub s"

definition TrimPrefix :: "string \<Rightarrow> string \<Rightarrow> string" where
  "TrimPrefix s p = (if HasPrefix s p then drop (length p) s else s)"

text \<open>
  \<open>strings.Split\<close> / \<open>bytes.Split\<close> with a one-byte separator (the agent only splits at
  \<open>","\<close> and \<open>":"\<close>): the pieces between the separators, one more than there are
  separators; the empty string gives one empty piece.
\<close>

fun Split :: "string \<Rightarrow> char \<Rightarrow> string list" where
  "Split [] sep = [[]]"
| "Split (c # cs) sep =
     (if c = sep then [] # Split cs sep
      else (case Split cs sep of
              [] \<Rightarrow> [[c]]
            | piece # pieces \<Rightarrow> (c # piece) # pieces))"

subsection \<open>strconv\<close>

datatype NumError = ErrSyntax | ErrRange

definition isDigit :: "char \<Rightarrow> bool" where
  "isDigit c = (48 \<le> (of_char c :: int) \<and> (of_char c :: int) \<le> 57)"

definition digitVal :: "char \<Rightarrow> int" where
  "digitVal c = of_char c - 48"

definition maxUint64 :: int where
  "maxUint64 = 18446744073709551615"

definition maxInt64 :: int where
  "maxInt64 = 9223372036854775807"

definition minInt64 :: int where
  "minInt64 = - 9223372036854775808"

text \<open>
  The digit loop of \<open>strconv.ParseUint(s, 10, 64)\<close>.  Each byte is first checked to be a
  digit of the base (anything else is a syntax error with value 0); then the
  accumulator is checked against the cut-off \<open>maxUint64 / 10 + 1\<close> and the sum against
  \<open>maxUint64\<close>.  A range error returns \<open>maxUint64\<close> at once: the bytes after the
  overflowing digit are never looked at.
\<close>

fun parseUintLoop :: "int \<Rightarrow> string \<Rightarrow> int \<times> NumError option" where
  "parseUintLoop n [] = (n, None)"
| "parseUintLoop n (c # cs) =
     (if \<not> isDigit c then (0, Some ErrSyntax)
      else if maxUint64 div 10 + 1 \<le> n then (maxUint64, Some ErrRange)
      else if maxUint64 < n * 10 + digitVal c then (maxUint64, Some ErrRange)
      else parseUintLoop (n * 10 + digitVal c) cs)"

definition ParseUint :: "string \<Rightarrow> int \<times> NumError option" where
  "ParseUint s = (if s = [] then (0, Some ErrSyntax) else parseUintLoop 0 s)"

text \<open>
  \<open>strconv.ParseInt(s, 10, 0)\<close> on a 64-bit platform: an optional sign, then
  \<open>ParseUint\<close>; a syntax error gives 0, a magnitude outside the signed range gives the
  nearest bound together with a range error.
\<close>

definition signedResult :: "bool \<Rightarrow> int \<times> NumError option \<Rightarrow> int \<times> NumError option" where
  "signedResult neg r =
     (case r of (un, err) \<Rightarrow>
        if err = Some ErrSyntax then (0, err)
        else if \<not> neg \<and> 9223372036854775808 \<le> un then (maxInt64, Some ErrRange)
        else if neg \<and> 9223372036854775808 < un then (minInt64, Some ErrRange)
        else (if neg then - un else un, None))"

fun ParseInt :: "string \<Rightarrow> int \<times> NumError option" where
  "ParseInt [] = (0, Some ErrSyntax)"
| "ParseInt (c # cs) =
     (if c = CHR ''+'' then signedResult False (ParseUint cs)
      else if c = CHR ''-'' then signedResult True (ParseUint cs)
      else signedResult False (ParseUint (c # cs)))"

text \<open>
  \<open>strconv.Atoi\<close>: its fast path for short strings computes the same result as
  \<open>ParseInt(s, 10, 0)\<close>, which it calls for everything else.
\<close>

definition Atoi :: "string \<Rightarrow> int \<times> NumError option" where
  "Atoi s = ParseInt s"

text \<open>
  \<open>strconv.ParseBool\<close>: exactly twelve spellings are accepted.
\<close>

definition ParseBool :: "string \<Rightarrow> bool option" where
  "ParseBool s =
     (if s \<in> set [''1'', ''t'', ''T'', ''TRUE'', ''true'', ''True''] then Some True
      else if s \<in> set [''0'', ''f'', ''F'', ''FALSE'', ''false'', ''False''] then Some False
      else None)"

section \<open>Stream mux: inbound text frames (\<open>processRemoteInput\<close>)\<close>

definition resizeHeader :: string where
  "resizeHeader = ''resize: ''"

definition closeHeader :: string where
  "closeHeader = ''close session''"

text \<open>
  What one pass of the loop of \<open>processRemoteInput\<close> does with a text message:
  \<^item> \<open>Report e\<close>: \<open>e\<close> is sent on the error channel and the loop returns;
  \<^item> \<open>Return\<close>: the loop returns without an error (close message);
  \<^item> \<open>Continue r\<close>: the loop moves on to the next message; \<open>r = Some (h, w)\<close> when
    \<open>sess.Resize(h, w)\<close> was called (its result is dropped), \<open>None\<close> when it was not.
\<close>

datatype frame_step = Report string | Return | Continue "(int \<times> int) option"

text \<open>
  \<open>msg := make([]byte, 128); n, err := msgReader.Read(msg); msg = msg[:n]\<close>.
  A single read into the 128-byte buffer: of a buffered payload it yields the first
  128 bytes at most, and \<open>(0, EOF)\<close> for an empty payload.
\<close>

definition readMsg :: "string \<Rightarrow> string + string" where
  "readMsg payload = (if payload = [] then Inl ''EOF'' else Inr (take 128 payload))"

definition processTextMessage :: "string \<Rightarrow> frame_step" where
  "processTextMessage payload =
     (case readMsg payload of
        Inl err \<Rightarrow> Report (''read from remote error: '' @ err)
      | Inr msg \<Rightarrow>
          if HasPrefix msg resizeHeader then
            (let vals = Split (TrimPrefix msg resizeHeader) CHR '',''
             in if length vals = 2 then
                  (let h = fst (Atoi (vals ! 0)); w = fst (Atoi (vals ! 1))
                   in if 0 < h \<and> 0 < w then Continue (Some (h, w)) else Continue None)
                else Continue None)
          else if HasPrefix msg closeHeader then Return
          else Continue None)"

subsection \<open>Decimal integers, as the specification words the resize message\<close>

text \<open>
  The value of a digit string read in base ten, from an accumulator.
\<close>

fun decFrom :: "int \<Rightarrow> string \<Rightarrow> int" where
  "decFrom n [] = n"
| "decFrom n (c # cs) = decFrom (n * 10 + digitVal c) cs"

text \<open>
  A decimal integer: an optional sign followed by at least one digit.  Its value is
  unbounded; \<open>None\<close> when the string is not of that shape.
\<close>

definition decimalInt :: "string \<Rightarrow> int option" where
  "decimalInt s =
     (case s of
        [] \<Rightarrow> None
      | c # cs \<Rightarrow>
          if c = CHR ''+'' then (if cs \<noteq> [] \<and> list_all isDigit cs then Some (decFrom 0 cs) else None)
          else if c = CHR ''-'' then (if cs \<noteq> [] \<and> list_all isDigit cs then Some (- decFrom 0 cs) else None)
          else if list_all isDigit s then Some (decFrom 0 s) else None)"

text \<open>
  The string without a leading \<open>+\<close>, and whether the run of digits at its start
  already exceeds 64 bits: \<open>ParseUint\<close> then stops with a range error before it reads
  what follows the run.
\<close>

definition unsignedPart :: "string \<Rightarrow> string" where
  "unsignedPart s = (case s of [] \<Rightarrow> [] | c # cs \<Rightarrow> if c = CHR ''+'' then cs else s)"

definition overflowsUint64 :: "string \<Rightarrow> bool" where
  "overflowsUint64 s = (maxUint64 < decFrom 0 (takeWhile isDigit (unsignedPart s)))"

text \<open>
  The strings for which \<open>h, _ := strconv.Atoi(s)\<close> leaves a strictly positive \<open>h\<close>:
  the positive decimal integers, and the strings whose leading digits overflow.
\<close>

definition yieldsPositive :: "string \<Rightarrow> bool" where
  "yieldsPositive s = ((case decimalInt s of Some v \<Rightarrow> 0 < v | None \<Rightarrow> False) \<or> overflowsUint64 s)"

text \<open>
  The remainder of a resize message on which the code calls \<open>Resize\<close>.
\<close>

definition resizeAccepted :: "string \<Rightarrow> bool" where
  "resizeAccepted rest =
     (case Split rest CHR '','' of
        [a, b] \<Rightarrow> yieldsPositive a \<and> yieldsPositive b
      | _ \<Rightarrow> False)"

text \<open>
  The specification's wording: the remainder is \<open>H,W\<close>, two decimal integers that are
  both strictly positive.
\<close>

definition specResizeRequested :: "string \<Rightarrow> bool" where
  "specResizeRequested rest =
     (case Split rest CHR '','' of
        [a, b] \<Rightarrow>
          (case (decimalInt a, decimalInt b) of
             (Some h, Some w) \<Rightarrow> 0 < h \<and> 0 < w
           | _ \<Rightarrow> False)
      | _ \<Rightarrow> False)"

section \<open>Request acceptor (package \<open>request\<close>)\<close>

subsection \<open>encoding/base64\<close>

text \<open>
  \<open>base64.StdEncoding.DecodeString\<close>: the standard alphabet with mandatory \<open>=\<close>
  padding.  Carriage returns and line feeds are skipped; the input is then read in
  groups of four characters, only the last of which may end in one or two \<open>=\<close>;
  the unused low bits of a padded group are not checked.
\<close>

definition b64Index :: "char \<Rightarrow> int option" where
  "b64Index c =
     (let n = (of_char c :: int) in
      if 65 \<le> n \<and> n \<le> 90 then Some (n - 65)
      else if 97 \<le> n \<and> n \<le> 122 then Some (n - 71)
      else if 48 \<le> n \<and> n \<le> 57 then Some (n + 4)
      else if n = 43 then Some 62
      else if n = 47 then Some 63
      else None)"

definition byteChar :: "int \<Rightarrow> char" where
  "byteChar n = char_of (n mod 256)"

definition decode2 :: "char \<Rightarrow> char \<Rightarrow> string option" where
  "decode2 a b =
     (case (b64Index a, b64Index b) of
        (Some x, Some y) \<Rightarrow> Some [byteChar (x * 4 + y div 16)]
      | _ \<Rightarrow> None)"

definition decode3 :: "char \<Rightarrow> char \<Rightarrow> char \<Rightarrow> string option" where
  "decode3 a b c =
     (case (b64Index a, b64Index b, b64Index c) of
        (Some x, Some y, Some z) \<Rightarrow>
          Some [byteChar (x * 4 + y div 16), byteChar ((y mod 16) * 16 + z div 4)]
      | _ \<Rightarrow> None)"

definition decode4 :: "char \<Rightarrow> char \<Rightarrow> char \<Rightarrow> char \<Rightarrow> string option" where
  "decode4 a b c d =
     (case (b64Index a, b64Index b, b64Index c, b64Index d) of
        (Some x, Some y, Some z, Some w) \<Rightarrow>
          Some [byteChar (x * 4 + y div 16), byteChar ((y mod 16) * 16 + z div 4),
                byteChar ((z mod 4) * 64 + w)]
      | _ \<Rightarrow> None)"

fun decodeQuanta :: "string \<Rightarrow> string option" where
  "decodeQuanta [] = Some []"
| "decodeQuanta [a, b, c, d] =
     (if c = CHR ''='' \<and> d = CHR ''='' then decode2 a b
      else if d = CHR ''='' then decode3 a b c
      else decode4 a b c d)"
| "decodeQuanta (a # b # c # d # rest) =
     (case decode4 a b c d of
        None \<Rightarrow> None
      | Some bytes \<Rightarrow>
          (case decodeQuanta rest of None \<Rightarrow> None | Some tail \<Rightarrow> Some (bytes @ tail)))"
| "decodeQuanta _ = None"

definition DecodeString :: "string \<Rightarrow> string option" where
  "DecodeString s = decodeQuanta (filter (\<lambda>c. c \<noteq> CHR 0x0A \<and> c \<noteq> CHR 0x0D) s)"

subsection \<open>The request envelope\<close>

text \<open>
  \<open>r.Header\<close> is a Go map from header name to the list of its values.  The code
  only ever takes \<open>r.Header[name]\<close> and looks at its length and first element, so an
  absent header and one with no value read the same: the empty list.
\<close>

type_synonym Header = "string \<rightharpoonup> string list"

definition hdr :: "Header \<Rightarrow> string \<Rightarrow> string list" where
  "hdr h name = (case h name of None \<Rightarrow> [] | Some vs \<Rightarrow> vs)"

text \<open>
  \<open>if len(tmp) > 0 { field = tmp[0] }\<close>: the field keeps its zero value otherwise.
\<close>

definition firstOr :: "'a \<Rightarrow> 'a list \<Rightarrow> 'a" where
  "firstOr zero tmp = (case tmp of [] \<Rightarrow> zero | v # _ \<Rightarrow> v)"

text \<open>
  \<open>client.TargetType\<close> is a byte with \<open>TargetPhys = 0\<close> (the zero value) and
  \<open>TargetContainer = 1\<close>.
\<close>

datatype TargetType = TargetPhys | TargetContainer

text \<open>
  \<open>request.Info\<close>.  \<open>Cpus\<close> is a \<open>float64\<close>; its type is left open as \<open>'f\<close>.
\<close>

record 'f Info =
  SessionID :: string
  AgentAddr :: string
  UserName :: string
  LoginName :: string
  LoginGroup :: string
  TargetType :: TargetType
  PodName :: string
  ContainerID :: string
  ContainerName :: string
  Interactive :: bool
  Tty :: bool
  Cmd :: "string list"
  UseBase64 :: bool
  IPAddress :: string
  AppName :: string
  Cpus :: 'f
  MemoryMB :: int
  DisableCleanMode :: bool

text \<open>
  The errors \<open>GetRequestInfo\<close> returns, in the order of the checks:
  \<open>"request error: invalid target type"\<close>,
  \<open>"request error: no pod name of container target"\<close>,
  \<open>"request error: invalid interactive argument: ..."\<close>,
  \<open>"request error: invalid tty argument: ..."\<close>,
  \<open>"request error: no command"\<close>,
  \<open>"decoding command error:..."\<close>,
  \<open>"request error: invalid cpus argument: ..."\<close>,
  \<open>"request error: invalid memoryMB argument: ..."\<close>.
\<close>

datatype RequestError =
    InvalidTargetType
  | NoPodName
  | InvalidInteractive
  | InvalidTty
  | NoCommand
  | DecodingCommandError
  | InvalidCpus
  | InvalidMemoryMB

text \<open>
  The blocks of \<open>GetRequestInfo\<close>, in source order.  Each returns the error of its
  block or the fields it sets.
\<close>

definition targetTypeOf :: "Header \<Rightarrow> RequestError + TargetType" where
  "targetTypeOf h =
     (case hdr h ''Target-Type'' of
        [] \<Rightarrow> Inr TargetPhys
      | v # _ \<Rightarrow>
          if v = ''physical'' then Inr TargetPhys
          else if v = ''container'' then Inr TargetContainer
          else Inl InvalidTargetType)"

text \<open>Pod name, container id and container name: read for container targets only.\<close>

definition containerFields :: "TargetType \<Rightarrow> Header \<Rightarrow> RequestError + string \<times> string \<times> string" where
  "containerFields tt h =
     (if tt = TargetContainer then
        (case hdr h ''Pod-Name'' of
           [] \<Rightarrow> Inl NoPodName
         | pod # _ \<Rightarrow>
             Inr (pod, firstOr [] (hdr h ''Container-Id''), firstOr [] (hdr h ''Container-Name'')))
      else Inr ([], [], []))"

definition boolField :: "RequestError \<Rightarrow> string list \<Rightarrow> RequestError + bool" where
  "boolField e tmp =
     (case tmp of
        [] \<Rightarrow> Inr False
      | v # _ \<Rightarrow> (case ParseBool v of None \<Rightarrow> Inl e | Some b \<Rightarrow> Inr b))"

text \<open>
  The \<open>for _, encodedString := range tmp\<close> loop: the first element that does not
  decode ends the whole function with an error.
\<close>

fun decodeAll :: "string list \<Rightarrow> RequestError + string list" where
  "decodeAll [] = Inr []"
| "decodeAll (encodedString # others) =
     (case DecodeString encodedString of
        None \<Rightarrow> Inl DecodingCommandError
      | Some decodedData \<Rightarrow>
          (case decodeAll others of
             Inl e \<Rightarrow> Inl e
           | Inr decodedCommand \<Rightarrow> Inr (decodedData # decodedCommand)))"

text \<open>The command and the \<open>UseBase64\<close> flag.\<close>

definition commandOf :: "Header \<Rightarrow> RequestError + string list \<times> bool" where
  "commandOf h =
     (case hdr h ''Command-Base64-Encode'' of
        [] \<Rightarrow>
          (case hdr h ''Command'' of
             [] \<Rightarrow> Inl NoCommand
           | c # cs \<Rightarrow> Inr (c # cs, False))
      | e # es \<Rightarrow>
          (case decodeAll (e # es) of
             Inl err \<Rightarrow> Inl err
           | Inr decodedCommand \<Rightarrow> Inr (decodedCommand, True)))"

definition cpusOf :: "(string \<Rightarrow> 'f option) \<Rightarrow> 'f \<Rightarrow> Header \<Rightarrow> RequestError + 'f" where
  "cpusOf ParseFloat zero h =
     (case hdr h ''Cpus'' of
        [] \<Rightarrow> Inr zero
      | v # _ \<Rightarrow> (case ParseFloat v of None \<Rightarrow> Inl InvalidCpus | Some x \<Rightarrow> Inr x))"

definition memoryOf :: "Header \<Rightarrow> RequestError + int" where
  "memoryOf h =
     (case hdr h ''Memory'' of
        [] \<Rightarrow> Inr 0
      | v # _ \<Rightarrow> (case Atoi v of (n, None) \<Rightarrow> Inr n | (_, Some _) \<Rightarrow> Inl InvalidMemoryMB))"

definition disableCleanModeOf :: "Header \<Rightarrow> bool" where
  "disableCleanModeOf h =
     (case hdr h ''Disable-Clean-Mode'' of [] \<Rightarrow> False | v # _ \<Rightarrow> v = ''1'')"

text \<open>
  \<open>GetRequestInfo\<close>.  \<open>strconv.ParseFloat(_, 64)\<close> and the zero of \<open>float64\<close> are
  parameters.
\<close>

definition GetRequestInfo ::
  "(string \<Rightarrow> 'f option) \<Rightarrow> 'f \<Rightarrow> Header \<Rightarrow> RequestError + 'f Info" where
  "GetRequestInfo ParseFloat zero h =
     (case targetTypeOf h of Inl e \<Rightarrow> Inl e | Inr tt \<Rightarrow>
      case containerFields tt h of Inl e \<Rightarrow> Inl e | Inr (pod, cid, cname) \<Rightarrow>
      case boolField InvalidInteractive (hdr h ''Interactive'') of Inl e \<Rightarrow> Inl e | Inr interactive \<Rightarrow>
      case boolField InvalidTty (hdr h ''Tty'') of Inl e \<Rightarrow> Inl e | Inr tty \<Rightarrow>
      case commandOf h of Inl e \<Rightarrow> Inl e | Inr (cmd, b64) \<Rightarrow>
      case cpusOf ParseFloat zero h of Inl e \<Rightarrow> Inl e | Inr cpus \<Rightarrow>
      case memoryOf h of Inl e \<Rightarrow> Inl e | Inr memory \<Rightarrow>
        Inr \<lparr> SessionID = firstOr [] (hdr h ''Session-Id''),
              AgentAddr = firstOr [] (hdr h ''Agent-Addr''),
              UserName = firstOr [] (hdr h ''User-Name''),
              LoginName = firstOr [] (hdr h ''Login-Name''),
              LoginGroup = firstOr [] (hdr h ''Login-Group''),
              TargetType = tt,
              PodName = pod,
              ContainerID = cid,
              ContainerName = cname,
              Interactive = interactive,
              Tty = tty,
              Cmd = cmd,
              UseBase64 = b64,
              IPAddress = firstOr [] (hdr h ''Ip-Address''),
              AppName = firstOr [] (hdr h ''App-Name''),
              Cpus = cpus,
              MemoryMB = memory,
              DisableCleanMode = disableCleanModeOf h \<rparr>)"

subsection \<open>Example request envelopes\<close>

definition exampleRawRequest :: Header where
  "exampleRawRequest = [''Command'' \<mapsto> [''ls'', ''-l'']]"

definition exampleBase64Request :: Header where
  "exampleBase64Request = [''Command-Base64-Encode'' \<mapsto> [''bHM='', ''LWw='']]"

definition malformedBase64Request :: Header where
  "malformedBase64Request = [''Command-Base64-Encode'' \<mapsto> [''!!!'']]"

section \<open>Error classification (package \<open>sessionutil\<close>)\<close>

definition maxContainerIDLength :: nat where
  "maxContainerIDLength = 6"

definition WrapContainerError :: "string \<Rightarrow> string \<Rightarrow> string" where
  "WrapContainerError errMsg containerID =
     (let cid = (if maxContainerIDLength < length containerID
                 then take maxContainerIDLength containerID else containerID)
      in if Contains errMsg ''No such container'' \<or> Contains errMsg ''not found''
           then ''can't find container:'' @ cid
         else if Contains errMsg ''is not running''
           then ''container is not running:'' @ cid
         else if Contains errMsg ''no such file or directory'' \<or> Contains errMsg ''connection refused''
           then ''docker is unavailable''
         else errMsg)"

text \<open>
  The \<open>switch\<close> of \<open>WrapErrorWithCode\<close>: the first sentinel text found in the message
  decides the code.
\<close>

definition errorCode :: "string \<Rightarrow> string" where
  "errorCode errMsg =
     (if Contains errMsg ''no space left on device'' then ''MA_513''
      else if Contains errMsg ''visit authorization server failed'' then ''MA_518''
      else if Contains errMsg ''verify client certificate error'' then ''MA_519''
      else if Contains errMsg ''current sidecar num exceed the limit'' then ''MA_521''
      else if Contains errMsg ''can't find container'' then ''MA_522''
      else if Contains errMsg ''container is not running'' then ''MA_523''
      else if Contains errMsg ''docker daemon is unavailable'' then ''MA_524''
      else if Contains errMsg ''is not permitted to login on host'' then ''MA_525''
      else if Contains errMsg ''user does not exist'' then ''MA_526''
      else if Contains errMsg ''nsenter host namespace failed'' then ''MA_527''
      else if Contains errMsg ''SSH public key insert error'' then ''MA_528''
      else if Contains errMsg ''SSH private key read error'' then ''MA_529''
      else if Contains errMsg ''SSH private key parse error'' then ''MA_530''
      else if Contains errMsg ''SSH connect error'' then ''MA_531''
      else ''MA_-1'')"

definition WrapErrorWithCode :: "string \<Rightarrow> string" where
  "WrapErrorWithCode errMsg = ''code='' @ errorCode errMsg @ '',msg='' @ errMsg"

section \<open>Session broker (package \<open>backend\<close>)\<close>

subsection \<open>Formatting\<close>

text \<open>The \<open>%d\<close> verb of \<open>fmt\<close>: an integer in decimal.\<close>

definition digitChar :: "nat \<Rightarrow> char" where
  "digitChar d = char_of (48 + d)"

function digitsOf :: "nat \<Rightarrow> string" where
  "digitsOf n = (if n < 10 then [digitChar n] else digitsOf (n div 10) @ [digitChar (n mod 10)])"
  by pat_completeness auto
termination
  by (relation "measure id") auto

declare digitsOf.simps [simp del]

definition formatInt :: "int \<Rightarrow> string" where
  "formatInt i = (if i < 0 then CHR ''-'' # digitsOf (nat (- i)) else digitsOf (nat i))"

definition maxWebsocketControlMsgLength :: nat where
  "maxWebsocketControlMsgLength = 123"

definition truncWebsocketErrMsg :: "string \<Rightarrow> string" where
  "truncWebsocketErrMsg errMsg =
     (if maxWebsocketControlMsgLength < length errMsg
      then take maxWebsocketControlMsgLength errMsg else errMsg)"

subsection \<open>Configuration and state\<close>

text \<open>\<open>session.ContainerRuntime\<close> is a string type with two named values.\<close>

type_synonym ContainerRuntime = string

definition Docker :: ContainerRuntime where
  "Docker = ''docker''"

definition Containerd :: ContainerRuntime where
  "Containerd = ''containerd''"

text \<open>\<open>session.Config\<close>, built by \<open>Handle\<close> for each request.\<close>

record 'f Config =
  confTargetType :: TargetType
  confRootfsPrefix :: string
  confContainerID :: string
  confSidecarImage :: string
  confImageHubAuth :: string
  confUserName :: string
  confLoginName :: string
  confLoginGroup :: string
  confCmd :: "string list"
  confTty :: bool
  confInteractive :: bool
  confPhysTunnel :: string
  confDisableCleanMode :: bool
  confCpus :: 'f
  confMemoryMB :: int
  confContainerNamespace :: string

text \<open>
  \<open>backend.Config\<close> with its nested session, container and sidecar configurations
  (the authentication configuration only picks the handler below).
\<close>

record HandlerConfig =
  PhysTunnel :: string
  DelayReleaseSessionTimeout :: int
  Endpoint :: string
  DockerAPIVersion :: string
  RootfsPrefix :: string
  Runtime :: ContainerRuntime
  Namespace :: string
  SidecarImage :: string
  ImageHubAuth :: string
  Limit :: int

text \<open>
  \<open>StaleSession\<close>.  A session is a reference \<open>'sess\<close>; the death clock
  \<open>time.After(timeout)\<close> is the instant at which it fires.
\<close>

record 'sess StaleSession =
  userName :: string
  sess :: 'sess
  deathClock :: int
  isSidecarSession :: bool

text \<open>
  \<open>handler.dockerClient\<close> is an interface value: \<open>NoClient\<close> is the nil interface,
  \<open>LiveClient\<close> a client.  \<open>checkContainerRuntime\<close> assigns the \<open>*Client\<close> result of
  \<open>CreateDockerClient\<close> to it directly, so after a failed creation it holds a nil
  pointer, which is not the nil interface: \<open>NilPointerClient\<close>.
\<close>

datatype ClientHandle = NoClient | NilPointerClient | LiveClient

record ('f, 'sess) Handler =
  config :: HandlerConfig
  staleSessions :: "string \<rightharpoonup> 'sess StaleSession"
  dockerClient :: ClientHandle
  containerdClient :: bool
  authHandler :: "('f Info \<Rightarrow> nat) option"
  currentSidecarNum :: int

text \<open>
  What lies outside the broker, for one request: the results of the calls it makes.
  \<^item> \<open>upgrade\<close>: whether the WebSocket upgrade succeeds;
  \<^item> \<open>timeStamp\<close>: \<open>time.Now().Format("20060102150405")\<close>; \<open>clock\<close>: the current instant;
  \<^item> \<open>createDockerClient\<close>, \<open>createContainerdClient\<close>: the error of the client
    constructor, if any;
  \<^item> \<open>establishNsenter\<close>, \<open>establishSSH\<close>, \<open>establishContainerd\<close>: the backend
    constructors of those names, each giving an error text or a session;
  \<^item> \<open>attachSidecar\<close>, \<open>execContainer\<close>: what \<open>establishDockerSession\<close> gives with a
    client at hand, along its branch for clean mode (a sidecar container is created
    and attached) and along its branch for disabled clean mode (an exec in the
    target container);
  \<^item> \<open>clean\<close>: the error of \<open>sess.Clean()\<close>, if any.
\<close>

record ('f, 'sess) World =
  upgrade :: bool
  timeStamp :: string
  clock :: int
  createDockerClient :: "string option"
  createContainerdClient :: "string option"
  establishNsenter :: "'f Config \<Rightarrow> string + 'sess"
  establishSSH :: "'f Config \<Rightarrow> string + 'sess"
  attachSidecar :: "'f Config \<Rightarrow> string + 'sess"
  execContainer :: "'f Config \<Rightarrow> string + 'sess"
  establishContainerd :: "'f Config \<Rightarrow> string + 'sess"
  clean :: "'sess \<Rightarrow> string option"

subsection \<open>The backend factory (\<open>session.EstablishSession\<close>)\<close>

definition establishPhysSession ::
  "('f, 'sess) World \<Rightarrow> 'f Config \<Rightarrow> string + 'sess" where
  "establishPhysSession w c =
     (if confPhysTunnel c = ''nsenter'' \<and> \<not> confDisableCleanMode c
      then establishNsenter w c
      else establishSSH w c)"

text \<open>
  \<open>establishDockerSession\<close> and \<open>establishContainerdSession\<close> start with the check for
  a nil client; a nil pointer inside the interface passes the docker check.
\<close>

definition establishDockerSession ::
  "('f, 'sess) World \<Rightarrow> 'f Config \<Rightarrow> ClientHandle \<Rightarrow> string + 'sess" where
  "establishDockerSession w c containerClient =
     (if containerClient = NoClient then Inl ''container Client is nil''
      else if confDisableCleanMode c then execContainer w c
      else attachSidecar w c)"

definition establishContainerdSession ::
  "('f, 'sess) World \<Rightarrow> 'f Config \<Rightarrow> bool \<Rightarrow> string + 'sess" where
  "establishContainerdSession w c containerdCl =
     (if \<not> containerdCl then Inl ''containerd Client is nil''
      else establishContainerd w c)"

definition establishContainerSession ::
  "('f, 'sess) World \<Rightarrow> 'f Config \<Rightarrow> ClientHandle \<Rightarrow> bool \<Rightarrow> ContainerRuntime
     \<Rightarrow> string + 'sess" where
  "establishContainerSession w c apiClient containerdCl containerRuntime =
     (if containerRuntime = Docker then establishDockerSession w c apiClient
      else establishContainerdSession w c containerdCl)"

definition EstablishSession ::
  "('f, 'sess) World \<Rightarrow> 'f Config \<Rightarrow> ClientHandle \<Rightarrow> bool \<Rightarrow> ContainerRuntime
     \<Rightarrow> string + 'sess" where
  "EstablishSession w c apiClient containerdCl containerRuntime =
     (if confTargetType c = TargetPhys then establishPhysSession w c
      else establishContainerSession w c apiClient containerdCl containerRuntime)"

subsection \<open>Container pre-checks\<close>

definition checkContainerRuntime ::
  "('f, 'sess) World \<Rightarrow> ('f, 'sess) Handler \<Rightarrow> 'f Config \<Rightarrow> ContainerRuntime
     \<Rightarrow> ('f, 'sess) Handler \<times> string option" where
  "checkContainerRuntime w handler sessConf runtime =
     (if confTargetType sessConf = TargetContainer \<and> runtime = Docker
           \<and> dockerClient handler = NoClient then
        (case createDockerClient w of
           Some err \<Rightarrow> (handler\<lparr>dockerClient := NilPointerClient\<rparr>, Some err)
         | None \<Rightarrow> (handler\<lparr>dockerClient := LiveClient\<rparr>, None))
      else if runtime = Containerd \<and> \<not> containerdClient handler then
        (case createContainerdClient w of
           Some err \<Rightarrow> (handler\<lparr>containerdClient := False\<rparr>, Some err)
         | None \<Rightarrow> (handler\<lparr>containerdClient := True\<rparr>, None))
      else (handler, None))"

text \<open>
  \<open>checkSidecarNum\<close>.  The local \<open>isContainerSidecarSession\<close> is set for docker in
  clean mode and returned together with the error when the limit is reached; the
  last statement of the function is \<open>return false, nil\<close>.
\<close>

definition sidecarLimitError :: "int \<Rightarrow> int \<Rightarrow> string" where
  "sidecarLimitError current limit =
     ''current sidecar num exceed the limit: '' @ formatInt current @ '','' @ formatInt limit @ '' ''"

definition checkSidecarNum ::
  "('f, 'sess) Handler \<Rightarrow> 'f Config \<Rightarrow> ContainerRuntime \<Rightarrow> bool \<times> string option" where
  "checkSidecarNum handler sessConf runtime =
     (if runtime = Docker then
        (if \<not> confDisableCleanMode sessConf then
           (if Limit (config handler) \<le> currentSidecarNum handler
            then (True,
                  Some (sidecarLimitError (currentSidecarNum handler) (Limit (config handler))))
            else (False, None))
         else (False, None))
      else (False, None))"

definition containerPreCheck ::
  "('f, 'sess) World \<Rightarrow> ('f, 'sess) Handler \<Rightarrow> 'f Config \<Rightarrow> ContainerRuntime
     \<Rightarrow> ('f, 'sess) Handler \<times> bool \<times> string option" where
  "containerPreCheck w handler sessConf runtime =
     (case checkContainerRuntime w handler sessConf runtime of
        (handler', Some err) \<Rightarrow> (handler', False, Some err)
      | (handler', None) \<Rightarrow>
          (case checkSidecarNum handler' sessConf runtime of
             (isSidecar, err) \<Rightarrow> (handler', isSidecar, err)))"

subsection \<open>\<open>Handle\<close>\<close>

text \<open>
  \<open>Handle\<close> blocks on the session's error channel while the session runs, with the
  broker's lock released.  It is therefore split where it waits: \<open>HandleAccept\<close> is the
  part up to the stream wiring, \<open>HandleFinish\<close> the part after an error value (nil or
  not) has arrived.  \<open>Locals\<close> are the local variables alive across the wait.
\<close>

record ('f, 'sess) Locals =
  requestInfo :: "'f Info"
  sessID :: string
  localSess :: 'sess
  localIsSidecarSession :: bool

text \<open>
  How \<open>HandleAccept\<close> ends: one of the early returns (the last two after the close
  message shown has been written to the client), or the stream wiring.
\<close>

datatype ('f, 'sess) Accepted =
    RequestInvalid RequestError
  | AuthorizationFailed nat
  | UpgradeError
  | PreCheckError string
  | EstablishError string
  | Wired "('f, 'sess) Locals"

definition makeSessConf :: "('f, 'sess) Handler \<Rightarrow> 'f Info \<Rightarrow> 'f Config" where
  "makeSessConf handler info =
     \<lparr> confTargetType = TargetType info,
       confRootfsPrefix = RootfsPrefix (config handler),
       confContainerID = ContainerID info,
       confSidecarImage = SidecarImage (config handler),
       confImageHubAuth = ImageHubAuth (config handler),
       confUserName = UserName info,
       confLoginName = LoginName info,
       confLoginGroup = LoginGroup info,
       confCmd = Cmd info,
       confTty = Tty info,
       confInteractive = Interactive info,
       confPhysTunnel = PhysTunnel (config handler),
       confDisableCleanMode = DisableCleanMode info,
       confCpus = Cpus info,
       confMemoryMB = MemoryMB info,
       confContainerNamespace = [] \<rparr>"

text \<open>
  The block under the lock that looks for a stale session to reuse: the session of
  the entry is taken and the entry deleted; nothing else of the entry is read.
\<close>

definition reclaim ::
  "('f, 'sess) Handler \<Rightarrow> 'f Info \<Rightarrow> 'sess option \<times> ('f, 'sess) Handler" where
  "reclaim handler info =
     (case staleSessions handler (SessionID info) of
        Some staleSess \<Rightarrow>
          if SessionID info \<noteq> [] \<and> UserName info = userName staleSess
          then (Some (sess staleSess),
                handler\<lparr>staleSessions := (staleSessions handler)(SessionID info := None)\<rparr>)
          else (None, handler)
      | None \<Rightarrow> (None, handler))"

text \<open>
  The payload of the close message written when the pre-checks or the backend
  constructor fail: \<open>truncWebsocketErrMsg("Establish session error: " + errMsg)\<close>.
\<close>

definition establishErrorClose :: "string \<Rightarrow> string" where
  "establishErrorClose errMsg = truncWebsocketErrMsg (''Establish session error: '' @ errMsg)"

text \<open>The creation of a new session, when none was reclaimed.\<close>

definition newSession ::
  "('f, 'sess) World \<Rightarrow> ('f, 'sess) Handler \<Rightarrow> 'f Info \<Rightarrow> string
     \<Rightarrow> ('f, 'sess) Handler \<times> ('f, 'sess) Accepted" where
  "newSession w handler info sid =
     (let sessConf = makeSessConf handler info;
          runtime = Runtime (config handler);
          (handler1, isSidecar, err) =
             (if confTargetType sessConf = TargetContainer
              then containerPreCheck w handler sessConf runtime
              else (handler, False, None))
      in case err of
           Some e \<Rightarrow>
             (handler1,
              PreCheckError (establishErrorClose
                 (WrapErrorWithCode (WrapContainerError e (confContainerID sessConf)))))
         | None \<Rightarrow>
             (case EstablishSession w sessConf (dockerClient handler1)
                     (containerdClient handler1) runtime of
                Inl e \<Rightarrow>
                  (handler1,
                   EstablishError (establishErrorClose (WrapErrorWithCode e)))
              | Inr s \<Rightarrow>
                  ((if isSidecar
                    then handler1\<lparr>currentSidecarNum := currentSidecarNum handler1 + 1\<rparr>
                    else handler1),
                   Wired \<lparr> requestInfo = info, sessID = sid, localSess = s,
                           localIsSidecarSession = isSidecar \<rparr>)))"

definition HandleAccept ::
  "('f, 'sess) World \<Rightarrow> (string \<Rightarrow> 'f option) \<Rightarrow> 'f \<Rightarrow> ('f, 'sess) Handler \<Rightarrow> Header
     \<Rightarrow> ('f, 'sess) Handler \<times> ('f, 'sess) Accepted" where
  "HandleAccept w ParseFloat zero handler h =
     (case GetRequestInfo ParseFloat zero h of
        Inl e \<Rightarrow> (handler, RequestInvalid e)
      | Inr info \<Rightarrow>
          (case (case authHandler handler of
                   None \<Rightarrow> None
                 | Some verify \<Rightarrow> if verify info \<noteq> 200 then Some (verify info) else None) of
             Some code \<Rightarrow> (handler, AuthorizationFailed code)
           | None \<Rightarrow>
               if \<not> upgrade w then (handler, UpgradeError)
               else
                 (case reclaim handler info of
                    (reused, handler0) \<Rightarrow>
                      (let sid = (if SessionID info = [] then timeStamp w else SessionID info)
                       in case reused of
                            Some s \<Rightarrow>
                              (handler0,
                               Wired \<lparr> requestInfo = info, sessID = sid, localSess = s,
                                       localIsSidecarSession = False \<rparr>)
                          | None \<Rightarrow> newSession w handler0 info sid))))"





subsection \<open>The broker at work\<close>



subsection \<open>Example broker states and requests\<close>

text \<open>
  A request for a docker container in clean mode (the sidecar-attached backend), and
  the same request carrying a session identifier.
\<close>

definition sidecarRequest :: Header where
  "sidecarRequest =
     [''Target-Type'' \<mapsto> [''container''], ''Pod-Name'' \<mapsto> [''pod-1''],
      ''Container-Id'' \<mapsto> [''c1''], ''User-Name'' \<mapsto> [''alice''],
      ''Login-Name'' \<mapsto> [''root''], ''Command'' \<mapsto> [''ls'']]"


definition dockerConfig :: "int \<Rightarrow> HandlerConfig" where
  "dockerConfig limit =
     \<lparr> PhysTunnel = ''nsenter'', DelayReleaseSessionTimeout = 60,
       Endpoint = ''unix:///var/run/docker.sock'', DockerAPIVersion = ''1.40'',
       RootfsPrefix = ''/rootfs'', Runtime = Docker, Namespace = [],
       SidecarImage = ''trust-tunnel-sidecar:latest'', ImageHubAuth = [],
       Limit = limit \<rparr>"

text \<open>A freshly started broker with the sidecar limit 1.\<close>

definition capOneHandler :: "(nat, nat) Handler" where
  "capOneHandler =
     \<lparr> config = dockerConfig 1, staleSessions = Map.empty, dockerClient = LiveClient,
       containerdClient = False, authHandler = None, currentSidecarNum = 0 \<rparr>"

text \<open>The same broker with the gauge at the limit.\<close>

definition capReachedHandler :: "(nat, nat) Handler" where
  "capReachedHandler = capOneHandler\<lparr>currentSidecarNum := 1\<rparr>"

text \<open>
  A world in which the upgrade succeeds and attaching a sidecar yields the session
  \<open>s\<close>; the other backend constructors are not available.
\<close>

definition worldYielding :: "nat \<Rightarrow> (nat, nat) World" where
  "worldYielding s =
     \<lparr> upgrade = True, timeStamp = ''20261031120000'', clock = 0,
       createDockerClient = None, createContainerdClient = None,
       establishNsenter = (\<lambda>_. Inl ''not used''), establishSSH = (\<lambda>_. Inl ''not used''),
       attachSidecar = (\<lambda>_. Inr s), execContainer = (\<lambda>_. Inl ''not used''),
       establishContainerd = (\<lambda>_. Inl ''not used''),
       clean = (\<lambda>_. None) \<rparr>"

definition noFloat :: "string \<Rightarrow> nat option" where
  "noFloat s = None"

text \<open>What \<open>GetRequestInfo\<close> makes of \<open>sidecarRequest\<close>.\<close>

definition sidecarInfo :: "nat Info" where
  "sidecarInfo =
     \<lparr> SessionID = [], AgentAddr = [], UserName = ''alice'', LoginName = ''root'',
       LoginGroup = [], TargetType = TargetContainer, PodName = ''pod-1'',
       ContainerID = ''c1'', ContainerName = [], Interactive = False, Tty = False,
       Cmd = [''ls''], UseBase64 = False, IPAddress = [], AppName = [], Cpus = 0,
       MemoryMB = 0, DisableCleanMode = False \<rparr>"




section \<open>Host login through \<open>nsenter\<close>\<close>

subsection \<open>\<open>sessionutil.findUser\<close>\<close>

text \<open>
  The passwd file as \<open>findUser\<close> meets it: \<open>os.Open\<close> fails with an error text, the
  file is read to its end, or a read fails with an error other than \<open>io.EOF\<close> after
  some text has been delivered.
\<close>

datatype PasswdFile = CannotOpen string | Readable string | ReadFails string string

definition newline :: char where
  "newline = CHR 0x0A"

text \<open>
  The lines that the loop over \<open>buf.ReadString('\n')\<close> gets to see, each with its
  newline.  At the end of the file \<open>ReadString\<close> returns what is left together with
  \<open>io.EOF\<close> and the loop breaks at once: a last line without a newline is dropped.
\<close>

fun linesFrom :: "string \<Rightarrow> string \<Rightarrow> string list" where
  "linesFrom line [] = []"
| "linesFrom line (c # cs) =
     (if c = newline then (line @ [c]) # linesFrom [] cs
      else linesFrom (line @ [c]) cs)"

definition expectedPasswdSegmentsCount :: nat where
  "expectedPasswdSegmentsCount = 7"

text \<open>
  The test the loop applies to a line: seven segments, the first the user name, no
  \<open>nologin\<close> anywhere in the line, and a last segment ending in \<open>sh\<close> and the newline.
\<close>

definition acceptsLine :: "string \<Rightarrow> string \<Rightarrow> bool" where
  "acceptsLine username line =
     (let segs = Split line CHR '':'' in
      length segs = expectedPasswdSegmentsCount \<and> segs ! 0 = username
      \<and> \<not> Contains line ''nologin'' \<and> HasSuffix (segs ! 6) [CHR ''s'', CHR ''h'', newline])"

text \<open>
  The loop over the lines; \<open>atEnd\<close> is what the function returns once \<open>ReadString\<close>
  gives an error: the three empty strings after \<open>io.EOF\<close>, the read error otherwise.
\<close>

fun findUserIn ::
  "string \<Rightarrow> string + string \<times> string \<times> string \<Rightarrow> string list
     \<Rightarrow> string + string \<times> string \<times> string" where
  "findUserIn username atEnd [] = atEnd"
| "findUserIn username atEnd (line # rest) =
     (let segs = Split line CHR '':'' in
      if length segs \<noteq> expectedPasswdSegmentsCount then findUserIn username atEnd rest
      else if segs ! 0 \<noteq> username then findUserIn username atEnd rest
      else if \<not> Contains line ''nologin'' \<and> HasSuffix (segs ! 6) [CHR ''s'', CHR ''h'', newline]
        then Inr (segs ! 2, segs ! 3, segs ! 5)
      else findUserIn username atEnd rest)"

definition findUser :: "string \<Rightarrow> PasswdFile \<Rightarrow> string + string \<times> string \<times> string" where
  "findUser username passwd =
     (case passwd of
        CannotOpen err \<Rightarrow> Inl (''open host file (/etc/passwd) error: '' @ err)
      | Readable content \<Rightarrow> findUserIn username (Inr ([], [], [])) (linesFrom [] content)
      | ReadFails content err \<Rightarrow>
          findUserIn username (Inl (''read host file (/etc/passwd) error: '' @ err))
            (linesFrom [] content))"

definition GetUserInfo :: "string \<Rightarrow> PasswdFile \<Rightarrow> string + string \<times> string \<times> string" where
  "GetUserInfo username passwd = findUser username passwd"

text \<open>
  \<open>GetLoginDirAndIDs\<close>, which the SSH backend uses to find the home of the login
  user; \<open>strconv.Atoi\<close> errors are dropped.
\<close>

definition GetLoginDirAndIDs ::
  "string \<Rightarrow> PasswdFile \<Rightarrow> string \<Rightarrow> string + int \<times> int \<times> string" where
  "GetLoginDirAndIDs username passwd rootfsPrefix =
     (case findUser username passwd of
        Inl err \<Rightarrow> Inl (''open host file ('' @ rootfsPrefix @ ''/etc/passwd) error: '' @ err)
      | Inr (uid, gid, loginDir) \<Rightarrow>
          if length loginDir = 0 then
            Inl (''username '' @ username @ '' is not permitted to login on host'')
          else Inr (fst (Atoi uid), fst (Atoi gid), rootfsPrefix @ loginDir))"

subsection \<open>\<open>establishNsenterSession\<close>\<close>

text \<open>
  The command line and the environment of the \<open>nsenter\<close> child.
\<close>

definition nsenterArgs :: "'f Config \<Rightarrow> string \<Rightarrow> string \<Rightarrow> string \<Rightarrow> string list" where
  "nsenterArgs c uid gid loginDir =
     [''-t'', ''1'', ''-m'', ''-u'', ''-i'', ''-n'', ''-p'']
     @ (if uid \<noteq> [] then [''-S'', uid, ''-G'', gid, ''--wd='' @ confRootfsPrefix c @ loginDir]
        else [])
     @ confCmd c"

definition nsenterEnv :: "string \<Rightarrow> string list" where
  "nsenterEnv loginDir =
     [''PWD='' @ loginDir,
      ''PATH=/usr/local/sbin:/usr/local/bin:/usr/sbin:/usr/bin:/sbin:/bin'',
      ''TERM=xterm-256color'']"

text \<open>
  \<open>establishNsenterSession\<close>.  The passwd file at \<open>RootfsPrefix + "/etc/passwd"\<close> is the
  parameter \<open>passwd\<close>; \<open>start tty args env\<close> stands for the set-up of the console or
  the pipes and the start of the child, giving the error text of the step that
  failed or the session.
\<close>

definition establishNsenterSession ::
  "(bool \<Rightarrow> string list \<Rightarrow> string list \<Rightarrow> string + 'sess) \<Rightarrow> PasswdFile \<Rightarrow> 'f Config
     \<Rightarrow> string + 'sess" where
  "establishNsenterSession start passwd c =
     (case (if confLoginName c \<noteq> [] then
              (case GetUserInfo (confLoginName c) passwd of
                 Inl err \<Rightarrow> Inl err
               | Inr (uid, gid, loginDir) \<Rightarrow>
                   if uid = [] then Inl (''user does not exist:'' @ confLoginName c)
                   else Inr (uid, gid, loginDir))
            else Inr ([], [], [])) of
        Inl err \<Rightarrow> Inl err
      | Inr (uid, gid, loginDir) \<Rightarrow>
          start (confTty c) (nsenterArgs c uid gid loginDir) (nsenterEnv loginDir))"

subsection \<open>The classification the specification gives\<close>

text \<open>
  The specification's wording: a login name present in the passwd file whose shell
  is a \<open>nologin\<close> shell or does not end in \<open>sh\<close> is refused with \<open>MA_525\<close>, a login
  name absent from the file fails with \<open>MA_526\<close>; any other name is admitted
  (\<open>None\<close>).  A name is present when a line of seven fields starts with it; the
  shell is the last field, without the newline.
\<close>

definition passwdEntryOf :: "string \<Rightarrow> string \<Rightarrow> bool" where
  "passwdEntryOf username line =
     (length (Split line CHR '':'') = 7 \<and> Split line CHR '':'' ! 0 = username)"

definition shellOf :: "string \<Rightarrow> string" where
  "shellOf line = takeWhile (\<lambda>c. c \<noteq> newline) (Split line CHR '':'' ! 6)"

definition specLoginCode :: "string \<Rightarrow> string \<Rightarrow> string option" where
  "specLoginCode username content =
     (case filter (passwdEntryOf username) (linesFrom [] content) of
        [] \<Rightarrow> Some ''MA_526''
      | line # _ \<Rightarrow>
          if Contains (shellOf line) ''nologin'' \<or> \<not> HasSuffix (shellOf line) ''sh''
          then Some ''MA_525'' else None)"

subsection \<open>Example passwd files\<close>

definition examplePasswd :: string where
  "examplePasswd =
     ''root:x:0:0:root:/root:/bin/bash'' @ [newline] @
     ''daemon:x:1:1:daemon:/usr/sbin:/usr/sbin/nologin'' @ [newline] @
     ''bob:x:1000:1000:Bob:/home/bob:/bin/zsh'' @ [newline]"

definition hostLogin :: "string \<Rightarrow> nat Config" where
  "hostLogin name =
     \<lparr> confTargetType = TargetPhys, confRootfsPrefix = ''/rootfs'', confContainerID = [],
       confSidecarImage = [], confImageHubAuth = [], confUserName = ''alice'',
       confLoginName = name, confLoginGroup = [], confCmd = [''ls''], confTty = False,
       confInteractive = False, confPhysTunnel = ''nsenter'', confDisableCleanMode = False,
       confCpus = 0, confMemoryMB = 0, confContainerNamespace = [] \<rparr>"

definition startOk :: "bool \<Rightarrow> string list \<Rightarrow> string list \<Rightarrow> string + nat" where
  "startOk tty args env = Inr 1"

text \<open>
  The sentinel texts that \<open>WrapErrorWithCode\<close> looks for before it looks for
  \<open>user does not exist\<close>.
\<close>

definition earlierSentinels :: "string list" where
  "earlierSentinels =
     [''no space left on device'', ''visit authorization server failed'',
      ''verify client certificate error'', ''current sidecar num exceed the limit'',
      ''can't find container'', ''container is not running'',
      ''docker daemon is unavailable'', ''is not permitted to login on host'']"

section \<open>Docker sessions (\<open>session/docker.go\<close>)\<close>

subsection \<open>Calls that return, panic or block\<close>

text \<open>
  What a call on a session comes to in a given state: it returns a value, it panics
  with a runtime error, or it cannot proceed and waits for another goroutine.
\<close>

datatype 'a Outcome = Returns 'a | Panics string | Blocks

text \<open>
  The two done channels every session has.  A channel of \<open>struct{}\<close> is modelled by
  the number of signals a receiver can take from it now: values in its buffer, or
  senders waiting at it.  \<open><-ch\<close> takes one, and blocks when there is none.
\<close>

record doneChannels =
  stdoutDone :: nat
  stderrDone :: nat

subsection \<open>The session object\<close>

text \<open>
  \<open>dockerSession\<close>.  \<open>conn\<close> is the \<open>net.Conn\<close> interface value: \<open>None\<close> is nil, \<open>Some fd\<close> a
  connection.  \<open>lockHeld\<close> is the state of the mutex \<open>lock\<close>.  The reader, the context,
  the client and the two output channels are not fields of the model: the client is
  the parameter \<open>api\<close> of the methods below, and what is sent on the output channels
  is the result of \<open>handleStreamOutput\<close>.
\<close>

record dockerSession = doneChannels +
  respID :: string
  isExec :: bool
  conn :: "nat option"
  tty_docker :: bool
  sidecarID :: string
  lockHeld :: bool

text \<open>
  The session values that \<open>execContainer\<close> and \<open>attachSidecar\<close> return, from the id of
  the created exec or container and the hijacked connection.
\<close>

definition newExecSession :: "'f Config \<Rightarrow> string \<Rightarrow> nat \<Rightarrow> dockerSession" where
  "newExecSession c createRespID attachConn =
     \<lparr> stdoutDone = 0, stderrDone = 0, respID = createRespID, isExec = True,
       conn = Some attachConn, tty_docker = confTty c, sidecarID = [], lockHeld = False \<rparr>"

definition newSidecarSession :: "'f Config \<Rightarrow> string \<Rightarrow> nat \<Rightarrow> dockerSession" where
  "newSidecarSession c createRespID attachConn =
     \<lparr> stdoutDone = 0, stderrDone = 0, respID = createRespID, isExec = False,
       conn = Some attachConn, tty_docker = confTty c, sidecarID = createRespID,
       lockHeld = False \<rparr>"

subsection \<open>The docker daemon and the process table\<close>

text \<open>
  The calls a session makes on the docker client and on the host's processes, each
  giving its error text or its result: \<open>ContainerInspect\<close> the pid of the container,
  \<open>ContainerExecInspect\<close> the exit code of the exec, \<open>waitContainer\<close> the status code
  of the container once it is not running.
\<close>

record DockerAPI =
  ContainerInspect :: "string \<Rightarrow> string + int"
  KillProcessGroup :: "int \<Rightarrow> string \<Rightarrow> bool \<Rightarrow> string option"
  KillProcess :: "int \<Rightarrow> string option"
  ContainerRemove :: "string \<Rightarrow> string option"
  ContainerExecInspect :: "string \<Rightarrow> string + int"
  waitContainer :: "string \<Rightarrow> string + int"

subsection \<open>\<open>Clean\<close>\<close>

definition cleanLegacyProcess :: "DockerAPI \<Rightarrow> dockerSession \<Rightarrow> bool \<Rightarrow> string option" where
  "cleanLegacyProcess api s isExecArg =
     (if isExecArg then None
      else
        (case ContainerInspect api (sidecarID s) of
           Inl err \<Rightarrow> Some err
         | Inr pid \<Rightarrow>
             (case KillProcessGroup api pid ''/superman.sh'' True of
                Some err \<Rightarrow>
                  if \<not> Contains err ''process already finished'' then Some err
                  else KillProcess api pid
              | None \<Rightarrow> KillProcess api pid)))"

definition nilDereference :: string where
  "nilDereference = ''runtime error: invalid memory address or nil pointer dereference''"

text \<open>
  \<open>Clean\<close>.  The mutex is taken and released without \<open>defer\<close>; between the two,
  \<open>s.conn.Close()\<close> is called on the interface value as it is, and \<open>s.conn\<close> is set to
  nil.  The error of \<open>cleanLegacyProcess\<close> is only logged.
\<close>

definition dockerSession_Clean ::
  "DockerAPI \<Rightarrow> dockerSession \<Rightarrow> string option Outcome \<times> dockerSession" where
  "dockerSession_Clean api s =
     (if lockHeld s then (Blocks, s)
      else
        (case conn s of
           None \<Rightarrow> (Panics nilDereference, s\<lparr>lockHeld := True\<rparr>)
         | Some fd \<Rightarrow>
             (let s' = s\<lparr>conn := None\<rparr>;
                  logged = cleanLegacyProcess api s' (isExec s')
              in if \<not> isExec s' then
                   (case ContainerRemove api (respID s') of
                      Some err \<Rightarrow> (Returns (Some err), s')
                    | None \<Rightarrow> (Returns None, s'))
                 else (Returns None, s'))))"

text \<open>\<open>NextStdin\<close>, which tests \<open>s.conn\<close> for nil under the same mutex.\<close>

definition dockerSession_NextStdin :: "dockerSession \<Rightarrow> (string + nat) Outcome" where
  "dockerSession_NextStdin s =
     (if lockHeld s then Blocks
      else (case conn s of None \<Rightarrow> Returns (Inl ''EOF'') | Some fd \<Rightarrow> Returns (Inr fd)))"

subsection \<open>\<open>ExitCode\<close>\<close>

text \<open>
  The end of \<open>ExitCode\<close>: the exit code of the exec, or the status code of the
  sidecar container once it is not running; an error of the daemon is logged and
  gives 0.
\<close>

definition daemonExitCode :: "DockerAPI \<Rightarrow> dockerSession \<Rightarrow> int" where
  "daemonExitCode api s =
     (if isExec s then
        (case ContainerExecInspect api (respID s) of
           Inl err \<Rightarrow> 0
         | Inr exitCode \<Rightarrow> exitCode)
      else
        (case waitContainer api (respID s) of
           Inl err \<Rightarrow> 0
         | Inr statusCode \<Rightarrow> statusCode))"

text \<open>
  \<open>ExitCode\<close> receives from \<open>stdoutDone\<close>, then from \<open>stderrDone\<close>, and then asks the
  daemon.
\<close>

definition dockerSession_ExitCode ::
  "DockerAPI \<Rightarrow> dockerSession \<Rightarrow> int Outcome \<times> dockerSession" where
  "dockerSession_ExitCode api s =
     (if stdoutDone s = 0 then (Blocks, s)
      else
        (let s1 = s\<lparr>stdoutDone := stdoutDone s - 1\<rparr> in
         if stderrDone s1 = 0 then (Blocks, s1)
         else
           (let s2 = s1\<lparr>stderrDone := stderrDone s1 - 1\<rparr> in
            (Returns (daemonExitCode api s2), s2))))"

subsection \<open>The output stream\<close>

text \<open>
  Bytes are characters, byte slices strings.  What the goroutine that reads the
  attached connection does to the two output channels, in order: it sends a reader
  over some bytes on \<open>stdoutCh\<close> or \<open>stderrCh\<close>, or it closes a channel.
\<close>

datatype ChanEvent = SendStdout string | SendStderr string | CloseStdout | CloseStderr

definition bufferSize :: nat where
  "bufferSize = 4096"

definition stdWriterPrefixLen :: nat where
  "stdWriterPrefixLen = 8"

definition stdWriterFdIndex :: nat where
  "stdWriterFdIndex = 0"

definition stdWriterSizeIndex :: nat where
  "stdWriterSizeIndex = 4"

text \<open>\<open>stdType\<close>: a byte, with three named values.\<close>

definition stdin :: nat where
  "stdin = 0"

definition stdout :: nat where
  "stdout = 1"

definition stderr :: nat where
  "stderr = 2"

text \<open>\<open>binary.BigEndian.Uint32\<close> on a slice of four bytes.\<close>

definition BigEndianUint32 :: "string \<Rightarrow> nat" where
  "BigEndianUint32 b =
     of_char (b ! 3) + of_char (b ! 2) * 2 ^ 8 + of_char (b ! 1) * 2 ^ 16
       + of_char (b ! 0) * 2 ^ 24"

text \<open>
  \<open>streamUnifiedOutput\<close>.  The argument lists what the calls of \<open>s.reader.Read\<close> deliver,
  one slice for each call, before the first call that gives an error.
\<close>

fun streamUnifiedOutput :: "string list \<Rightarrow> ChanEvent list" where
  "streamUnifiedOutput [] = [CloseStdout, CloseStderr]"
| "streamUnifiedOutput (buf # reads) =
     (if length buf > 0 then [SendStdout buf] else []) @ streamUnifiedOutput reads"

text \<open>
  \<open>streamSplitOutput\<close> with its inner loop \<open>frameLoop\<close>.  The argument is what is left
  of the stream up to its end or first error.  \<open>Peek\<close> fails when fewer than eight
  bytes are left; \<open>io.ReadFull\<close> fails when fewer bytes are left than the buffer
  holds, and otherwise fills the buffer, so that \<open>n\<close> is its length.  The inner loop
  leaves by \<open>break\<close> to the next round of the outer loop, or by \<open>return\<close>, which ends
  the goroutine with both channels open.  \<open>int\<close> has 64 bits: the frame size is not
  negative.
\<close>

function streamSplitOutput :: "string \<Rightarrow> ChanEvent list"
  and frameLoop :: "nat \<Rightarrow> nat \<Rightarrow> nat \<Rightarrow> string \<Rightarrow> ChanEvent list" where
  "streamSplitOutput input =
     (if length input < stdWriterPrefixLen then [CloseStdout, CloseStderr]
      else
        (let metadata = take stdWriterPrefixLen input;
             stream = of_char (metadata ! stdWriterFdIndex);
             frameSize = BigEndianUint32 (take 4 (drop stdWriterSizeIndex metadata))
         in frameLoop stream frameSize 0 (drop stdWriterPrefixLen input)))"
| "frameLoop stream frameSize nr input =
     (if frameSize \<le> nr then streamSplitOutput input
      else
        (let left = frameSize - nr;
             n = (if left < bufferSize then left else bufferSize)
         in if length input < n then []
            else if stream = stdin then []
            else if stream = stdout then
              SendStdout (take n input) # frameLoop stream frameSize (nr + n) (drop n input)
            else if stream = stderr then
              SendStderr (take n input) # frameLoop stream frameSize (nr + n) (drop n input)
            else []))"
  by pat_completeness auto
termination
  by (relation "measure (\<lambda>x. case x of Inl input \<Rightarrow> 2 * length input
                                | Inr (stream, frameSize, nr, input) \<Rightarrow> 2 * length input + 1)")
     (auto simp: stdWriterPrefixLen_def bufferSize_def split: if_splits)

declare streamSplitOutput.simps [simp del]
declare frameLoop.simps [simp del]

text \<open>
  \<open>handleStreamOutput\<close>, and the goroutine that \<open>establishDockerSession\<close> starts on the
  session it has obtained: \<open>go s.handleStreamOutput(!c.DisableCleanMode)\<close>.
\<close>

definition handleStreamOutput :: "dockerSession \<Rightarrow> bool \<Rightarrow> string list \<Rightarrow> ChanEvent list" where
  "handleStreamOutput s exec reads =
     (if tty_docker s then streamUnifiedOutput reads
      else if exec then streamSplitOutput (concat reads)
      else streamUnifiedOutput reads)"

definition outputGoroutine :: "'f Config \<Rightarrow> dockerSession \<Rightarrow> string list \<Rightarrow> ChanEvent list" where
  "outputGoroutine c s reads = handleStreamOutput s (\<not> confDisableCleanMode c) reads"

text \<open>The bytes that arrive on each channel.\<close>

fun stdoutBytes :: "ChanEvent list \<Rightarrow> string" where
  "stdoutBytes [] = []"
| "stdoutBytes (SendStdout b # es) = b @ stdoutBytes es"
| "stdoutBytes (_ # es) = stdoutBytes es"

fun stderrBytes :: "ChanEvent list \<Rightarrow> string" where
  "stderrBytes [] = []"
| "stderrBytes (SendStderr b # es) = b @ stderrBytes es"
| "stderrBytes (_ # es) = stderrBytes es"

subsection \<open>The framing of the specification\<close>

text \<open>
  A frame as the specification describes it: an eight-byte header, whose byte 0
  selects the stream and whose bytes 4 to 7 give the length of the payload as a
  big-endian unsigned 32-bit number, followed by the payload.
\<close>

definition frameHeader :: "nat \<Rightarrow> nat \<Rightarrow> string" where
  "frameHeader stream len =
     [char_of stream, char_of (0::nat), char_of (0::nat), char_of (0::nat),
      char_of (len div 2 ^ 24), char_of (len div 2 ^ 16), char_of (len div 2 ^ 8),
      char_of len]"

definition frame :: "nat \<times> string \<Rightarrow> string" where
  "frame f = frameHeader (fst f) (length (snd f)) @ snd f"

text \<open>
  The demultiplexing the specification asks for, on a stream made of whole frames:
  the payload of every frame goes to the channel its first byte selects, up to the
  first frame of type stdin, which ends the reader.
\<close>

fun specDemux :: "(nat \<times> string) list \<Rightarrow> string \<times> string" where
  "specDemux [] = ([], [])"
| "specDemux ((stream, payload) # frames) =
     (if stream = stdout then (payload @ fst (specDemux frames), snd (specDemux frames))
      else if stream = stderr then (fst (specDemux frames), payload @ snd (specDemux frames))
      else ([], []))"

subsection \<open>Example sessions\<close>

definition containerLogin :: "bool \<Rightarrow> nat Config" where
  "containerLogin disableCleanMode =
     \<lparr> confTargetType = TargetContainer, confRootfsPrefix = ''/rootfs'',
       confContainerID = ''c1'', confSidecarImage = [], confImageHubAuth = [],
       confUserName = ''alice'', confLoginName = ''root'', confLoginGroup = [],
       confCmd = [''ls''], confTty = False, confInteractive = False,
       confPhysTunnel = ''nsenter'', confDisableCleanMode = disableCleanMode,
       confCpus = 0, confMemoryMB = 0, confContainerNamespace = [] \<rparr>"

definition quietAPI :: DockerAPI where
  "quietAPI =
     \<lparr> ContainerInspect = (\<lambda>cid. Inr 4242),
       KillProcessGroup = (\<lambda>pid sentinel inverted. None),
       KillProcess = (\<lambda>pid. None),
       ContainerRemove = (\<lambda>cid. None),
       ContainerExecInspect = (\<lambda>execID. Inr 0),
       waitContainer = (\<lambda>cid. Inr 0) \<rparr>"

definition stderrFrameHi :: string where
  "stderrFrameHi = frame (stderr, ''hi'')"

text \<open>
  The frames on which the reader is compared with the specification: the stream
  type is a byte, the length fits 32 bits, and a frame that is neither for stdout
  nor for stderr has a payload.
\<close>

definition wellFramed :: "nat \<times> string \<Rightarrow> bool" where
  "wellFramed f =
     (fst f < 256 \<and> length (snd f) < 2 ^ 32
      \<and> (fst f = stdout \<or> fst f = stderr \<or> snd f \<noteq> []))"

section \<open>Exit codes of the containerd, nsenter and SSH sessions\<close>

subsection \<open>containerd\<close>

text \<open>
  \<open>containerdSession\<close>, as far as its exit code goes: the field \<open>exitCode\<close> (a
  \<open>uint32\<close>, 0 in a new session), the two done channels, and whether the context has
  been cancelled.
\<close>

record containerdSession = doneChannels +
  exitCode_containerd :: nat
  ctxCancelled :: bool

definition newContainerdSession :: containerdSession where
  "newContainerdSession =
     \<lparr> stdoutDone = 0, stderrDone = 0, exitCode_containerd = 0, ctxCancelled = False \<rparr>"

text \<open>
  The goroutine \<open>wait\<close>.  \<open>exited\<close> is what the exit channel of the process delivers:
  nothing yet, or the status with its code and error.  After the status \<open>wait\<close>
  receives both done signals, cancels the context and stores the code.
\<close>

definition containerdSession_wait ::
  "(nat \<times> string option) option \<Rightarrow> containerdSession
     \<Rightarrow> string option Outcome \<times> containerdSession" where
  "containerdSession_wait exited s =
     (case exited of
        None \<Rightarrow> (Blocks, s)
      | Some (code, err) \<Rightarrow>
          if stdoutDone s = 0 then (Blocks, s)
          else
            (let s1 = s\<lparr>stdoutDone := stdoutDone s - 1\<rparr> in
             if stderrDone s1 = 0 then (Blocks, s1)
             else
               (Returns err,
                s1\<lparr>stderrDone := stderrDone s1 - 1, ctxCancelled := True,
                    exitCode_containerd := code\<rparr>)))"

text \<open>\<open>ExitCode\<close>: \<open>return int(s.exitCode)\<close>.\<close>

definition containerdSession_ExitCode :: "containerdSession \<Rightarrow> int Outcome" where
  "containerdSession_ExitCode s = Returns (int (exitCode_containerd s))"

subsection \<open>nsenter\<close>

text \<open>
  \<open>nsenterSession\<close>: the field \<open>exitCode\<close>, whether \<open>exitCh\<close> is closed, the flag
  \<open>tty\<close>, and whether a signal waits in \<open>ptyChan\<close>.
\<close>

record nsenterSession = doneChannels +
  exitCode_nsenter :: int
  exitCh_nsenter :: bool
  tty_nsenter :: bool
  ptyChan :: bool

definition newNsenterSession :: "bool \<Rightarrow> nsenterSession" where
  "newNsenterSession tty =
     \<lparr> stdoutDone = 0, stderrDone = 0, exitCode_nsenter = 0, exitCh_nsenter = False,
       tty_nsenter = tty, ptyChan = False \<rparr>"

text \<open>
  The goroutine \<open>wait\<close>.  \<open>getExitCode\<close> is what the function of that name gives once
  \<open>cmd.Wait\<close> has returned, or nothing while the command runs.
\<close>

definition nsenterSession_wait ::
  "int option \<Rightarrow> nsenterSession \<Rightarrow> unit Outcome \<times> nsenterSession" where
  "nsenterSession_wait getExitCode s =
     (if tty_nsenter s \<and> \<not> ptyChan s then (Blocks, s)
      else
        (let s0 = (if tty_nsenter s then s\<lparr>ptyChan := False\<rparr> else s) in
         if stdoutDone s0 = 0 then (Blocks, s0)
         else
           (let s1 = s0\<lparr>stdoutDone := stdoutDone s0 - 1\<rparr> in
            if stderrDone s1 = 0 then (Blocks, s1)
            else
              (let s2 = s1\<lparr>stderrDone := stderrDone s1 - 1\<rparr> in
               case getExitCode of
                 None \<Rightarrow> (Blocks, s2)
               | Some code \<Rightarrow>
                   (Returns (), s2\<lparr>exitCode_nsenter := code, exitCh_nsenter := True\<rparr>)))))"

text \<open>
  \<open>ExitCode\<close>: a \<open>select\<close> between \<open>exitCh\<close> and a timer of two seconds.  The state is
  the one the session has reached when the timer fires, at the latest.
\<close>

definition nsenterSession_ExitCode :: "nsenterSession \<Rightarrow> int Outcome" where
  "nsenterSession_ExitCode s =
     (if exitCh_nsenter s then Returns (exitCode_nsenter s) else Returns 0)"

subsection \<open>SSH\<close>

record sshSession = doneChannels +
  exitCode_ssh :: int
  exitCh_ssh :: bool

definition newSSHSession :: sshSession where
  "newSSHSession = \<lparr> stdoutDone = 0, stderrDone = 0, exitCode_ssh = 0, exitCh_ssh = False \<rparr>"

text \<open>
  The goroutine \<open>wait\<close>.  \<open>sessionWait\<close> is the result of \<open>s.session.Wait()\<close>, once it
  has returned: no error, an \<open>ExitError\<close> with its status, or another error.
\<close>

datatype WaitError = ExitError int | OtherError string

definition sshSession_wait ::
  "WaitError option option \<Rightarrow> sshSession \<Rightarrow> unit Outcome \<times> sshSession" where
  "sshSession_wait sessionWait s =
     (if stderrDone s = 0 then (Blocks, s)
      else
        (let s1 = s\<lparr>stderrDone := stderrDone s - 1\<rparr> in
         if stdoutDone s1 = 0 then (Blocks, s1)
         else
           (let s2 = s1\<lparr>stdoutDone := stdoutDone s1 - 1\<rparr> in
            case sessionWait of
              None \<Rightarrow> (Blocks, s2)
            | Some None \<Rightarrow> (Returns (), s2\<lparr>exitCh_ssh := True\<rparr>)
            | Some (Some (ExitError status)) \<Rightarrow>
                (Returns (), s2\<lparr>exitCode_ssh := status, exitCh_ssh := True\<rparr>)
            | Some (Some (OtherError msg)) \<Rightarrow> (Returns (), s2\<lparr>exitCh_ssh := True\<rparr>))))"

definition sshSession_ExitCode :: "sshSession \<Rightarrow> int Outcome" where
  "sshSession_ExitCode s =
     (if exitCh_ssh s then Returns (exitCode_ssh s) else Returns 0)"

subsection \<open>The accessor of the specification\<close>

text \<open>
  The exit-code accessor as the specification has it for every backend: it blocks
  until both the stdout-done and the stderr-done signal have fired, and then returns
  the exit status of the command.
\<close>

definition specExitCode :: "bool \<Rightarrow> bool \<Rightarrow> int \<Rightarrow> int Outcome" where
  "specExitCode stdoutFired stderrFired status =
     (if stdoutFired \<and> stderrFired then Returns status else Blocks)"

section \<open>The sidecar manager (package \<open>sidecar\<close>)\<close>

definition defaultSidecarImage :: string where
  "defaultSidecarImage = ''trust-tunnel-sidecar:latest''"

text \<open>
  Times are counted in nanoseconds, instants from the Unix epoch: \<open>time.Hour\<close>,
  \<open>defaultCleanLegacySidecarPeriod = 5 * time.Minute\<close>, and \<open>time.Unix(sec, 0)\<close>.
\<close>

definition Hour :: int where
  "Hour = 3600 * 1000000000"

definition defaultCleanLegacySidecarPeriod :: int where
  "defaultCleanLegacySidecarPeriod = 5 * 60 * 1000000000"

definition Unix :: "int \<Rightarrow> int" where
  "Unix sec = sec * 1000000000"

text \<open>The fields of a listed container that the manager reads.\<close>

record Container =
  ID :: string
  Image :: string
  State :: string
  Created :: int

text \<open>
  One round of the loop as the daemon and the clock answer it: the result of
  \<open>ContainerList\<close> with \<open>All: true\<close>, the value of \<open>time.Now()\<close> when the loop
  examines a container, and the error of the forced \<open>ContainerRemove\<close> of a container
  id, if any.
\<close>

record Round =
  ContainerList :: "string + Container list"
  timeNow :: "Container \<Rightarrow> int"
  forceRemove :: "string \<Rightarrow> string option"

text \<open>
  What the loop does, in order: it sleeps for a duration, it logs that the listing
  failed, or it issues a forced remove, which succeeds or fails and is logged.
\<close>

datatype CleanEvent =
    Sleep int
  | ListFailed string
  | Removed string
  | RemoveFailed string string

text \<open>The loop over the listed containers.\<close>

fun removeLegacy :: "Round \<Rightarrow> Container list \<Rightarrow> CleanEvent list" where
  "removeLegacy env [] = []"
| "removeLegacy env (c # containers) =
     (if HasPrefix (Image c) defaultSidecarImage \<and> State c \<noteq> ''running''
         \<and> Unix (Created c) < timeNow env c - Hour then
        (case forceRemove env (ID c) of
           Some err \<Rightarrow> RemoveFailed (ID c) err # removeLegacy env containers
         | None \<Rightarrow> Removed (ID c) # removeLegacy env containers)
      else removeLegacy env containers)"

text \<open>
  The body of the outer loop: the sleep, the listing, and the loop over the listed
  containers; when the listing fails the body ends with \<open>continue\<close>.
\<close>

definition cleanRound :: "Round \<Rightarrow> CleanEvent list" where
  "cleanRound env =
     Sleep defaultCleanLegacySidecarPeriod #
       (case ContainerList env of
          Inl err \<Rightarrow> [ListFailed err]
        | Inr containers \<Rightarrow> removeLegacy env containers)"

text \<open>
  The outer loop \<open>for { ... }\<close> has no exit.  It is followed for a number of
  iterations: \<open>cleanLoop n rounds r\<close> is what the loop does in its iterations \<open>r\<close> to
  \<open>r + n - 1\<close>, where \<open>rounds r\<close> is what iteration \<open>r\<close> meets.
\<close>

fun cleanLoop :: "nat \<Rightarrow> (nat \<Rightarrow> Round) \<Rightarrow> nat \<Rightarrow> CleanEvent list" where
  "cleanLoop 0 rounds r = []"
| "cleanLoop (Suc n) rounds r = cleanRound (rounds r) @ cleanLoop n rounds (Suc r)"

text \<open>
  \<open>CleanLegacyContainerPeriodically\<close>, followed for \<open>n\<close> iterations of its loop: what
  it has done, and whether it has returned.  The client is nil (\<open>None\<close>), or it
  answers round by round.
\<close>

datatype Progress = Returned | StillRunning

definition CleanLegacyContainerPeriodically ::
  "nat \<Rightarrow> (nat \<Rightarrow> Round) option \<Rightarrow> CleanEvent list \<times> Progress" where
  "CleanLegacyContainerPeriodically n apiClient =
     (case apiClient of
        None \<Rightarrow> ([], Returned)
      | Some rounds \<Rightarrow> (cleanLoop n rounds 0, StillRunning))"

text \<open>The ids for which a forced remove has been issued, and the sleeps.\<close>

fun removesIssued :: "CleanEvent list \<Rightarrow> string list" where
  "removesIssued [] = []"
| "removesIssued (Removed cid # es) = cid # removesIssued es"
| "removesIssued (RemoveFailed cid err # es) = cid # removesIssued es"
| "removesIssued (e # es) = removesIssued es"

fun sleeps :: "CleanEvent list \<Rightarrow> int list" where
  "sleeps [] = []"
| "sleeps (Sleep d # es) = d # sleeps es"
| "sleeps (e # es) = sleeps es"

subsection \<open>The loop of the specification\<close>

text \<open>
  The specification's wording: a forced remove for exactly the listed containers
  whose image name begins with the configured sidecar image, whose state is not
  \<open>running\<close> and which were created more than one hour ago.
\<close>

definition specLegacy :: "string \<Rightarrow> int \<Rightarrow> Container \<Rightarrow> bool" where
  "specLegacy configuredImage now c =
     (HasPrefix (Image c) configuredImage \<and> State c \<noteq> ''running''
      \<and> Unix (Created c) < now - Hour)"

definition specRemoves :: "string \<Rightarrow> Round \<Rightarrow> string list" where
  "specRemoves configuredImage env =
     (case ContainerList env of
        Inl err \<Rightarrow> []
      | Inr containers \<Rightarrow>
          map ID (filter (\<lambda>c. specLegacy configuredImage (timeNow env c) c) containers))"

subsection \<open>Example containers\<close>

definition staleSidecar :: "string \<Rightarrow> string \<Rightarrow> Container" where
  "staleSidecar cid imageName = \<lparr> ID = cid, Image = imageName, State = ''exited'', Created = 0 \<rparr>"

definition listing :: "Container list \<Rightarrow> Round" where
  "listing containers =
     \<lparr> ContainerList = Inr containers, timeNow = (\<lambda>c. 2 * Hour),
       forceRemove = (\<lambda>cid. if cid = ''s2'' then Some ''removal in progress'' else None) \<rparr>"

section \<open>Properties of the resize control message\<close>

lemma digitVal_nonneg: "isDigit c \<Longrightarrow> 0 \<le> digitVal c"
  by (simp add: isDigit_def digitVal_def)

lemma decFrom_ge: "list_all isDigit cs \<Longrightarrow> 0 \<le> n \<Longrightarrow> n \<le> decFrom n cs"
proof (induction cs arbitrary: n)
  case Nil
  then show ?case by simp
next
  case (Cons c cs)
  then have d: "0 \<le> digitVal c" by (simp add: digitVal_nonneg)
  with Cons.prems have "n \<le> n * 10 + digitVal c" by simp
  also have "\<dots> \<le> decFrom (n * 10 + digitVal c) cs"
    using Cons.prems d by (intro Cons.IH) simp_all
  finally show ?case by simp
qed

lemma list_all_takeWhile: "list_all P (takeWhile P xs)"
  by (induction xs) simp_all

lemma parseUintLoop_char:
  "0 \<le> n \<Longrightarrow> n \<le> maxUint64 \<Longrightarrow>
   parseUintLoop n cs =
     (if maxUint64 < decFrom n (takeWhile isDigit cs) then (maxUint64, Some ErrRange)
      else if list_all isDigit cs then (decFrom n cs, None)
      else (0, Some ErrSyntax))"
proof (induction cs arbitrary: n)
  case Nil
  then show ?case by simp
next
  case (Cons c cs)
  show ?case
  proof (cases "isDigit c")
    case False
    then show ?thesis using Cons.prems by simp
  next
    case True
    let ?n' = "n * 10 + digitVal c"
    have d: "0 \<le> digitVal c" using True by (rule digitVal_nonneg)
    have n'0: "0 \<le> ?n'" using Cons.prems d by simp
    show ?thesis
    proof (cases "maxUint64 < ?n'")
      case over: True
      have "?n' \<le> decFrom ?n' (takeWhile isDigit cs)"
        using n'0 by (intro decFrom_ge list_all_takeWhile)
      with over have "maxUint64 < decFrom ?n' (takeWhile isDigit cs)" by linarith
      with True over show ?thesis by simp
    next
      case fits: False
      then have "\<not> maxUint64 div 10 + 1 \<le> n" using d by (simp add: maxUint64_def)
      with True fits n'0 Cons.IH[of ?n'] show ?thesis by simp
    qed
  qed
qed


lemma decFrom_nonneg: "list_all isDigit cs \<Longrightarrow> 0 \<le> n \<Longrightarrow> 0 \<le> decFrom n cs"
  using decFrom_ge[of cs n] by simp

lemma ParseUint_char:
  "ParseUint s =
     (if maxUint64 < decFrom 0 (takeWhile isDigit s) then (maxUint64, Some ErrRange)
      else if s \<noteq> [] \<and> list_all isDigit s then (decFrom 0 s, None)
      else (0, Some ErrSyntax))"
proof (cases "s = []")
  case True
  then show ?thesis by (simp add: ParseUint_def maxUint64_def)
next
  case False
  have "(0::int) \<le> maxUint64" by (simp add: maxUint64_def)
  then show ?thesis using False parseUintLoop_char[of 0 s] by (simp add: ParseUint_def)
qed

lemma takeWhile_all: "list_all P xs \<Longrightarrow> takeWhile P xs = xs"
  by (induction xs) simp_all

lemma signed_pos_False:
  "0 < fst (signedResult False (ParseUint s)) \<longleftrightarrow>
     (s \<noteq> [] \<and> list_all isDigit s \<and> 0 < decFrom 0 s) \<or> maxUint64 < decFrom 0 (takeWhile isDigit s)"
proof (cases "maxUint64 < decFrom 0 (takeWhile isDigit s)")
  case True
  then show ?thesis
    by (simp add: ParseUint_char signedResult_def maxUint64_def maxInt64_def)
next
  case False
  show ?thesis
  proof (cases "s \<noteq> [] \<and> list_all isDigit s")
    case True
    with False show ?thesis
      by (auto simp: ParseUint_char signedResult_def maxInt64_def)
  next
    case False
    with \<open>\<not> maxUint64 < decFrom 0 (takeWhile isDigit s)\<close> show ?thesis
      by (auto simp: ParseUint_char signedResult_def)
  qed
qed

lemma signed_pos_True: "\<not> 0 < fst (signedResult True (ParseUint s))"
proof (cases "maxUint64 < decFrom 0 (takeWhile isDigit s)")
  case True
  then show ?thesis
    by (simp add: ParseUint_char signedResult_def maxUint64_def minInt64_def)
next
  case False
  show ?thesis
  proof (cases "s \<noteq> [] \<and> list_all isDigit s")
    case True
    then have "0 \<le> decFrom 0 s" by (simp add: decFrom_nonneg)
    with True False show ?thesis
      by (auto simp: ParseUint_char signedResult_def minInt64_def)
  next
    case False
    with \<open>\<not> maxUint64 < decFrom 0 (takeWhile isDigit s)\<close> show ?thesis
      by (auto simp: ParseUint_char signedResult_def)
  qed
qed

lemma not_digit_sign: "\<not> isDigit CHR ''+''" "\<not> isDigit CHR ''-''"
  by (simp_all add: isDigit_def)

lemma Atoi_pos_iff: "0 < fst (Atoi s) \<longleftrightarrow> yieldsPositive s"
proof (cases s)
  case Nil
  then show ?thesis
    by (simp add: Atoi_def yieldsPositive_def decimalInt_def overflowsUint64_def unsignedPart_def maxUint64_def)
next
  case (Cons c cs)
  consider (plus) "c = CHR ''+''" | (minus) "c = CHR ''-''" | (other) "c \<noteq> CHR ''+''" "c \<noteq> CHR ''-''"
    by blast
  then show ?thesis
  proof cases
    case plus
    have "maxUint64 < decFrom 0 (takeWhile isDigit cs) \<Longrightarrow> \<not> list_all isDigit cs \<or> 0 < decFrom 0 cs"
      by (auto simp: takeWhile_all maxUint64_def)
    then show ?thesis using Cons plus
      by (auto simp: Atoi_def signed_pos_False yieldsPositive_def decimalInt_def
          overflowsUint64_def unsignedPart_def maxUint64_def)
  next
    case minus
    have "list_all isDigit cs \<Longrightarrow> 0 \<le> decFrom 0 cs" by (simp add: decFrom_nonneg)
    then show ?thesis using Cons minus
      by (auto simp: Atoi_def signed_pos_True yieldsPositive_def decimalInt_def
          overflowsUint64_def unsignedPart_def maxUint64_def not_digit_sign)
  next
    case other
    then show ?thesis using Cons
      by (auto simp: Atoi_def signed_pos_False yieldsPositive_def decimalInt_def
          overflowsUint64_def unsignedPart_def maxUint64_def)
  qed
qed

lemma length_two: "length xs = 2 \<longleftrightarrow> (\<exists>a b. xs = [a, b])"
  by (cases xs; cases "tl xs") auto

text \<open>
  Claim C9, as amended.  A text message whose first 128 bytes (the read buffer) begin
  with \<open>resize: \<close> never puts an error on the error channel and never ends the loop;
  \<open>Resize\<close> is called exactly when the rest of those bytes has one comma and
  \<open>Atoi\<close> leaves a strictly positive value for both pieces, that is when each piece
  is a positive decimal integer or starts with digits that overflow 64 bits.
\<close>

theorem resize_invoked_iff:
  assumes "HasPrefix (take 128 payload) resizeHeader"
  shows "\<exists>r. processTextMessage payload = Continue r \<and>
             (r \<noteq> None) = resizeAccepted (drop (length resizeHeader) (take 128 payload))"
proof -
  let ?msg = "take 128 payload"
  let ?vals = "Split (drop (length resizeHeader) ?msg) CHR '',''"
  from assms have ne: "payload \<noteq> []"
    by (auto simp: HasPrefix_def resizeHeader_def)
  have trim: "TrimPrefix ?msg resizeHeader = drop (length resizeHeader) ?msg"
    using assms by (simp add: TrimPrefix_def)
  show ?thesis
  proof (cases "length ?vals = 2")
    case True
    then obtain a b where ab: "?vals = [a, b]" by (auto simp: length_two)
    show ?thesis
      using assms ne trim ab
      by (simp add: processTextMessage_def readMsg_def resizeAccepted_def Let_def
          Atoi_pos_iff[symmetric])
  next
    case False
    then have "resizeAccepted (drop (length resizeHeader) ?msg) = False"
      by (auto simp: resizeAccepted_def split: list.splits)
    with False show ?thesis
      using assms ne trim
      by (simp add: processTextMessage_def readMsg_def Let_def)
  qed
qed

theorem resize_invoked_iff_witness:
  "HasPrefix (take 128 ''resize: 24,80'') resizeHeader \<and>
   (\<exists>r. processTextMessage ''resize: 24,80'' = Continue r \<and>
        (r \<noteq> None) = resizeAccepted (drop (length resizeHeader) (take 128 ''resize: 24,80'')))"
proof -
  have h: "HasPrefix (take 128 ''resize: 24,80'') resizeHeader"
    by (simp add: HasPrefix_def resizeHeader_def)
  from resize_invoked_iff[OF h] h show ?thesis by blast
qed

text \<open>
  The claim as stated fails: the first piece below is no decimal integer, yet
  \<open>Atoi\<close> returns \<open>MaxInt64\<close> with a range error that the code drops, and
  \<open>Resize\<close> is called.
\<close>

theorem resize_overflow_counterexample:
  "processTextMessage ''resize: 99999999999999999999x,5'' = Continue (Some (9223372036854775807, 5))
   \<and> \<not> specResizeRequested ''99999999999999999999x,5''"
  by (simp add: processTextMessage_def readMsg_def HasPrefix_def resizeHeader_def TrimPrefix_def
      Atoi_def ParseUint_def signedResult_def maxUint64_def maxInt64_def isDigit_def digitVal_def
      specResizeRequested_def decimalInt_def)

text \<open>
  The boundary payloads of the specification are ignored, a well-formed one is applied.
\<close>

lemma resize_examples:
  "processTextMessage ''resize: 24,80'' = Continue (Some (24, 80))"
  "processTextMessage ''resize: 0,0'' = Continue None"
  "processTextMessage ''resize: 24,'' = Continue None"
  by (simp_all add: processTextMessage_def readMsg_def HasPrefix_def resizeHeader_def TrimPrefix_def
      Atoi_def ParseUint_def signedResult_def maxUint64_def maxInt64_def isDigit_def digitVal_def)

section \<open>Properties of the request acceptor\<close>

lemma hdr_upd_other: "name \<noteq> k \<Longrightarrow> hdr (h(k \<mapsto> v)) name = hdr h name"
  by (simp add: hdr_def)

lemma hdr_upd_same: "hdr (h(k \<mapsto> v)) k = v"
  by (simp add: hdr_def)

lemma targetTypeOf_absent: "hdr h ''Target-Type'' = [] \<Longrightarrow> targetTypeOf h = Inr TargetPhys"
  by (simp add: targetTypeOf_def)

lemma targetTypeOf_physical: "targetTypeOf (h(''Target-Type'' \<mapsto> [''physical''])) = Inr TargetPhys"
  by (simp add: targetTypeOf_def hdr_upd_same)

lemma containerFields_phys: "containerFields TargetPhys h = Inr ([], [], [])"
  by (simp add: containerFields_def)

lemma commandOf_upd: "commandOf (h(''Target-Type'' \<mapsto> v)) = commandOf h"
  by (simp add: commandOf_def hdr_upd_other cong: list.case_cong)

lemma cpusOf_upd: "cpusOf pf z (h(''Target-Type'' \<mapsto> v)) = cpusOf pf z h"
  by (simp add: cpusOf_def hdr_upd_other)

lemma memoryOf_upd: "memoryOf (h(''Target-Type'' \<mapsto> v)) = memoryOf h"
  by (simp add: memoryOf_def hdr_upd_other)

lemma disableCleanModeOf_upd: "disableCleanModeOf (h(''Target-Type'' \<mapsto> v)) = disableCleanModeOf h"
  by (simp add: disableCleanModeOf_def hdr_upd_other)

lemma GetRequestInfo_phys:
  assumes "targetTypeOf h = Inr TargetPhys"
  shows "GetRequestInfo pf z h =
     (case boolField InvalidInteractive (hdr h ''Interactive'') of Inl e \<Rightarrow> Inl e | Inr interactive \<Rightarrow>
      case boolField InvalidTty (hdr h ''Tty'') of Inl e \<Rightarrow> Inl e | Inr tty \<Rightarrow>
      case commandOf h of Inl e \<Rightarrow> Inl e | Inr (cmd, b64) \<Rightarrow>
      case cpusOf pf z h of Inl e \<Rightarrow> Inl e | Inr cpus \<Rightarrow>
      case memoryOf h of Inl e \<Rightarrow> Inl e | Inr memory \<Rightarrow>
        Inr \<lparr> SessionID = firstOr [] (hdr h ''Session-Id''),
              AgentAddr = firstOr [] (hdr h ''Agent-Addr''),
              UserName = firstOr [] (hdr h ''User-Name''),
              LoginName = firstOr [] (hdr h ''Login-Name''),
              LoginGroup = firstOr [] (hdr h ''Login-Group''),
              TargetType = TargetPhys,
              PodName = [],
              ContainerID = [],
              ContainerName = [],
              Interactive = interactive,
              Tty = tty,
              Cmd = cmd,
              UseBase64 = b64,
              IPAddress = firstOr [] (hdr h ''Ip-Address''),
              AppName = firstOr [] (hdr h ''App-Name''),
              Cpus = cpus,
              MemoryMB = memory,
              DisableCleanMode = disableCleanModeOf h \<rparr>)"
  using assms by (simp add: GetRequestInfo_def containerFields_phys)

lemma absent_same_as_physical:
  assumes "hdr h ''Target-Type'' = []"
  shows "GetRequestInfo pf z h = GetRequestInfo pf z (h(''Target-Type'' \<mapsto> [''physical'']))"
  by (simp add: GetRequestInfo_phys[OF targetTypeOf_absent[OF assms]]
      GetRequestInfo_phys[OF targetTypeOf_physical]
      hdr_upd_other commandOf_upd cpusOf_upd memoryOf_upd disableCleanModeOf_upd
      cong: sum.case_cong)

lemma phys_result:
  assumes "targetTypeOf h = Inr TargetPhys" "GetRequestInfo pf z h = Inr info"
  shows "TargetType info = TargetPhys \<and> PodName info = [] \<and> ContainerID info = []
         \<and> ContainerName info = []"
  using assms(2) unfolding GetRequestInfo_phys[OF assms(1)]
  by (auto split: sum.splits prod.splits)

lemma boolField_Inl: "boolField e tmp = Inl e' \<Longrightarrow> e' = e"
  by (auto simp: boolField_def split: list.splits option.splits)

lemma decodeAll_Inl: "decodeAll xs = Inl e \<Longrightarrow> e = DecodingCommandError"
  by (induction xs arbitrary: e) (auto split: option.splits sum.splits)

lemma commandOf_Inl: "commandOf h = Inl e \<Longrightarrow> e = NoCommand \<or> e = DecodingCommandError"
  by (auto simp: commandOf_def simp del: decodeAll.simps split: list.splits sum.splits
      dest: decodeAll_Inl)

lemma cpusOf_Inl: "cpusOf pf z h = Inl e \<Longrightarrow> e = InvalidCpus"
  by (auto simp: cpusOf_def split: list.splits option.splits)

lemma memoryOf_Inl: "memoryOf h = Inl e \<Longrightarrow> e = InvalidMemoryMB"
  by (auto simp: memoryOf_def split: list.splits option.splits prod.splits)

lemma containerFields_Inl: "containerFields tt h = Inl e \<Longrightarrow> e = NoPodName"
  by (auto simp: containerFields_def split: list.splits if_splits)

lemma phys_not_target_errors:
  assumes "targetTypeOf h = Inr TargetPhys"
  shows "GetRequestInfo pf z h \<noteq> Inl InvalidTargetType \<and> GetRequestInfo pf z h \<noteq> Inl NoPodName"
  unfolding GetRequestInfo_phys[OF assms]
  by (auto split: sum.splits prod.splits
      dest: boolField_Inl commandOf_Inl cpusOf_Inl memoryOf_Inl)

lemma invalid_target_iff:
  "GetRequestInfo pf z h = Inl InvalidTargetType \<longleftrightarrow>
     (\<exists>v vs. hdr h ''Target-Type'' = v # vs \<and> v \<noteq> ''physical'' \<and> v \<noteq> ''container'')"
proof (cases "targetTypeOf h")
  case (Inl e)
  then have "e = InvalidTargetType"
    by (auto simp: targetTypeOf_def split: list.splits if_splits)
  with Inl show ?thesis
    by (auto simp: GetRequestInfo_def targetTypeOf_def split: list.splits if_splits)
next
  case (Inr tt)
  then have no: "\<not> (\<exists>v vs. hdr h ''Target-Type'' = v # vs \<and> v \<noteq> ''physical'' \<and> v \<noteq> ''container'')"
    by (auto simp: targetTypeOf_def split: list.splits if_splits)
  have "GetRequestInfo pf z h \<noteq> Inl InvalidTargetType"
    using Inr unfolding GetRequestInfo_def
    by (auto split: sum.splits prod.splits
        dest: boolField_Inl commandOf_Inl cpusOf_Inl memoryOf_Inl containerFields_Inl)
  with no show ?thesis by simp
qed

text \<open>
  Claim C10.  When the \<open>Target-Type\<close> header is absent (or has no value), parsing gives
  exactly the result it gives for \<open>Target-Type: physical\<close>: it fails neither with the
  target-type error nor with the missing-pod-name error, and a successful result has
  the physical target with empty pod and container fields.  The target-type error is
  returned exactly for a present header whose first value is neither \<open>physical\<close> nor
  \<open>container\<close>.
\<close>

theorem absent_target_type_is_physical:
  "(hdr h ''Target-Type'' = [] \<longrightarrow>
      GetRequestInfo pf z h = GetRequestInfo pf z (h(''Target-Type'' \<mapsto> [''physical'']))
      \<and> GetRequestInfo pf z h \<noteq> Inl InvalidTargetType
      \<and> GetRequestInfo pf z h \<noteq> Inl NoPodName
      \<and> (\<forall>info. GetRequestInfo pf z h = Inr info \<longrightarrow>
            TargetType info = TargetPhys \<and> PodName info = []
            \<and> ContainerID info = [] \<and> ContainerName info = []))
   \<and> (GetRequestInfo pf z h = Inl InvalidTargetType \<longleftrightarrow>
        (\<exists>v vs. hdr h ''Target-Type'' = v # vs \<and> v \<noteq> ''physical'' \<and> v \<noteq> ''container''))"
  using absent_same_as_physical[of h pf z] phys_not_target_errors[OF targetTypeOf_absent, of h pf z]
    phys_result[OF targetTypeOf_absent, of h pf z] invalid_target_iff[of pf z h]
  by blast

theorem absent_target_type_is_physical_witness:
  "hdr exampleRawRequest ''Target-Type'' = []
   \<and> (\<exists>info. GetRequestInfo (\<lambda>_. None :: nat option) 0 exampleRawRequest = Inr info
          \<and> TargetType info = TargetPhys \<and> PodName info = [])"
proof -
  have a: "hdr exampleRawRequest ''Target-Type'' = []"
    by (simp add: exampleRawRequest_def hdr_def)
  have "\<not> isl (GetRequestInfo (\<lambda>_. None :: nat option) 0 exampleRawRequest)"
    by code_simp
  then obtain info where
    g: "GetRequestInfo (\<lambda>_. None :: nat option) 0 exampleRawRequest = Inr info"
    by (cases "GetRequestInfo (\<lambda>_. None :: nat option) 0 exampleRawRequest") auto
  from absent_target_type_is_physical[of exampleRawRequest "\<lambda>_. None" 0] a g
  show ?thesis by blast
qed

lemma decodeAll_Inr_iff: "decodeAll xs = Inr ys \<longleftrightarrow> map Some ys = map DecodeString xs"
proof (induction xs arbitrary: ys)
  case Nil
  then show ?case by auto
next
  case (Cons x xs)
  show ?case
  proof (cases "DecodeString x")
    case None
    then show ?thesis by (cases ys) auto
  next
    case (Some d)
    show ?thesis
    proof (cases "decodeAll xs")
      case (Inl e)
      with Cons.IH have "\<And>zs. map Some zs \<noteq> map DecodeString xs" by simp
      with Some Inl show ?thesis by (cases ys) auto
    next
      case (Inr zs)
      with Cons.IH[of zs] have zs: "map Some zs = map DecodeString xs" by simp
      have inj: "map Some a = map Some b \<Longrightarrow> a = b" for a b :: "string list"
        by (simp add: inj_map_eq_map)
      show ?thesis
      proof (cases ys)
        case Nil
        with Some Inr show ?thesis by simp
      next
        case (Cons y ys')
        with Some Inr zs inj[of ys' zs] show ?thesis by auto
      qed
    qed
  qed
qed

lemma decodeAll_Inl_iff:
  "(\<exists>e. decodeAll xs = Inl e) \<longleftrightarrow> \<not> list_all (\<lambda>e. DecodeString e \<noteq> None) xs"
  by (induction xs) (auto split: option.splits sum.splits)

lemma GetRequestInfo_command:
  assumes "GetRequestInfo pf z h = Inr info"
  shows "commandOf h = Inr (Cmd info, UseBase64 info)"
  using assms unfolding GetRequestInfo_def
  by (auto split: sum.splits prod.splits)

lemma GetRequestInfo_command_fails:
  assumes "commandOf h = Inl e"
  shows "isl (GetRequestInfo pf z h)"
  using assms unfolding GetRequestInfo_def
  by (auto split: sum.splits prod.splits)

lemma commandOf_base64:
  assumes "hdr h ''Command-Base64-Encode'' \<noteq> []"
  shows "commandOf h =
           (case decodeAll (hdr h ''Command-Base64-Encode'') of
              Inl err \<Rightarrow> Inl err
            | Inr decodedCommand \<Rightarrow> Inr (decodedCommand, True))"
  using assms by (auto simp: commandOf_def simp del: decodeAll.simps split: list.splits)

lemma commandOf_raw:
  assumes "hdr h ''Command-Base64-Encode'' = []"
  shows "commandOf h =
           (if hdr h ''Command'' = [] then Inl NoCommand else Inr (hdr h ''Command'', False))"
  using assms by (auto simp: commandOf_def split: list.splits)

lemma invalid_request_stops:
  "GetRequestInfo pf z h = Inl e \<Longrightarrow> HandleAccept w pf z handler h = (handler, RequestInvalid e)"
  by (simp add: HandleAccept_def)

text \<open>
  Claim C8.  Exactly one command source is consumed.  With a non-empty
  \<open>Command-Base64-Encode\<close> list every element is decoded on its own and the decoded
  list is the command (\<open>UseBase64\<close> set); if any element fails to decode the request
  fails.  Without it the \<open>Command\<close> list is the command verbatim; with neither the
  request fails.  Whenever parsing fails, \<open>Handle\<close> returns at once: the broker's state
  is unchanged and nothing of the outside world (upgrade, pre-checks, backend
  constructors) is consulted.
\<close>

theorem command_source:
  "(hdr h ''Command-Base64-Encode'' \<noteq> []
      \<and> list_all (\<lambda>e. DecodeString e \<noteq> None) (hdr h ''Command-Base64-Encode'') \<longrightarrow>
      (\<forall>info. GetRequestInfo pf z h = Inr info \<longrightarrow>
          map Some (Cmd info) = map DecodeString (hdr h ''Command-Base64-Encode'')
          \<and> UseBase64 info))
   \<and> (hdr h ''Command-Base64-Encode'' \<noteq> []
      \<and> \<not> list_all (\<lambda>e. DecodeString e \<noteq> None) (hdr h ''Command-Base64-Encode'') \<longrightarrow>
      isl (GetRequestInfo pf z h))
   \<and> (hdr h ''Command-Base64-Encode'' = [] \<and> hdr h ''Command'' \<noteq> [] \<longrightarrow>
      (\<forall>info. GetRequestInfo pf z h = Inr info \<longrightarrow>
          Cmd info = hdr h ''Command'' \<and> \<not> UseBase64 info))
   \<and> (hdr h ''Command-Base64-Encode'' = [] \<and> hdr h ''Command'' = [] \<longrightarrow>
      isl (GetRequestInfo pf z h))
   \<and> (\<forall>e. GetRequestInfo pf z h = Inl e \<longrightarrow>
         HandleAccept w pf z handler h = (handler, RequestInvalid e))"
proof (intro conjI impI allI)
  fix info
  assume a: "hdr h ''Command-Base64-Encode'' \<noteq> []
      \<and> list_all (\<lambda>e. DecodeString e \<noteq> None) (hdr h ''Command-Base64-Encode'')"
    and g: "GetRequestInfo pf z h = Inr info"
  from GetRequestInfo_command[OF g] commandOf_base64[of h] a
  have "decodeAll (hdr h ''Command-Base64-Encode'') = Inr (Cmd info) \<and> UseBase64 info"
    by (auto split: sum.splits)
  then show "map Some (Cmd info) = map DecodeString (hdr h ''Command-Base64-Encode'')"
    and "UseBase64 info"
    by (simp_all add: decodeAll_Inr_iff)
next
  assume a: "hdr h ''Command-Base64-Encode'' \<noteq> []
      \<and> \<not> list_all (\<lambda>e. DecodeString e \<noteq> None) (hdr h ''Command-Base64-Encode'')"
  then obtain e where "decodeAll (hdr h ''Command-Base64-Encode'') = Inl e"
    using decodeAll_Inl_iff[of "hdr h ''Command-Base64-Encode''"] by blast
  with a commandOf_base64[of h] have "commandOf h = Inl e" by simp
  then show "isl (GetRequestInfo pf z h)" by (rule GetRequestInfo_command_fails)
next
  fix info
  assume a: "hdr h ''Command-Base64-Encode'' = [] \<and> hdr h ''Command'' \<noteq> []"
    and g: "GetRequestInfo pf z h = Inr info"
  from GetRequestInfo_command[OF g] commandOf_raw[of h] a
  show "Cmd info = hdr h ''Command''" and "\<not> UseBase64 info" by simp_all
next
  assume a: "hdr h ''Command-Base64-Encode'' = [] \<and> hdr h ''Command'' = []"
  with commandOf_raw[of h] have "commandOf h = Inl NoCommand" by simp
  then show "isl (GetRequestInfo pf z h)" by (rule GetRequestInfo_command_fails)
next
  fix e
  assume "GetRequestInfo pf z h = Inl e"
  then show "HandleAccept w pf z handler h = (handler, RequestInvalid e)"
    by (rule invalid_request_stops)
qed

theorem command_source_witness:
  "hdr exampleBase64Request ''Command-Base64-Encode'' \<noteq> []
   \<and> list_all (\<lambda>e. DecodeString e \<noteq> None) (hdr exampleBase64Request ''Command-Base64-Encode'')
   \<and> (\<exists>info. GetRequestInfo (\<lambda>_. None :: nat option) 0 exampleBase64Request = Inr info
          \<and> map Some (Cmd info) = map DecodeString (hdr exampleBase64Request ''Command-Base64-Encode'')
          \<and> UseBase64 info)"
proof -
  have e: "hdr exampleBase64Request ''Command-Base64-Encode'' = [''bHM='', ''LWw='']"
    by (simp add: exampleBase64Request_def hdr_def)
  have d: "DecodeString ''bHM='' = Some ''ls''" "DecodeString ''LWw='' = Some ''-l''"
    by code_simp+
  have a: "hdr exampleBase64Request ''Command-Base64-Encode'' \<noteq> []
      \<and> list_all (\<lambda>e. DecodeString e \<noteq> None) (hdr exampleBase64Request ''Command-Base64-Encode'')"
    by (simp add: e d)
  have "\<not> isl (GetRequestInfo (\<lambda>_. None :: nat option) 0 exampleBase64Request)"
    by code_simp
  then obtain info where
    g: "GetRequestInfo (\<lambda>_. None :: nat option) 0 exampleBase64Request = Inr info"
    by (cases "GetRequestInfo (\<lambda>_. None :: nat option) 0 exampleBase64Request") auto
  from command_source[where h = exampleBase64Request and pf = "\<lambda>_. None" and z = 0] a g
  show ?thesis by blast
qed

text \<open>
  The scenarios of the specification: a base64 command list decodes to its argv, and
  a list with the malformed element \<open>!!!\<close> fails the request.
\<close>

lemma base64_examples:
  "Cmd (projr (GetRequestInfo (\<lambda>_. None :: nat option) 0 exampleBase64Request)) = [''ls'', ''-l'']"
  "isl (GetRequestInfo (\<lambda>_. None :: nat option) 0 malformedBase64Request)"
  by code_simp+

section \<open>Properties of the session broker\<close>












lemma sidecarRequest_info: "GetRequestInfo noFloat 0 sidecarRequest = Inr sidecarInfo"
  by (simp add: GetRequestInfo_def sidecarRequest_def sidecarInfo_def hdr_def targetTypeOf_def
      containerFields_def boolField_def commandOf_def cpusOf_def memoryOf_def
      disableCleanModeOf_def firstOr_def)


lemma first_sidecar_session:
  "HandleAccept (worldYielding s) noFloat 0 capOneHandler sidecarRequest =
     (capOneHandler,
      Wired \<lparr> requestInfo = sidecarInfo, sessID = ''20261031120000'', localSess = s,
              localIsSidecarSession = False \<rparr>)"
  by (simp add: HandleAccept_def sidecarRequest_info capOneHandler_def reclaim_def
      sidecarInfo_def worldYielding_def newSession_def makeSessConf_def dockerConfig_def
      containerPreCheck_def checkContainerRuntime_def checkSidecarNum_def Docker_def
      Containerd_def EstablishSession_def establishContainerSession_def
      establishDockerSession_def Let_def)


text \<open>
  With the gauge at the limit the request is refused with \<open>MA_521\<close> in the pre-checks,
  whatever the backend constructors would have answered.
\<close>

lemma cap_message:
  "establishErrorClose (WrapErrorWithCode (WrapContainerError (sidecarLimitError 1 1) ''c1''))
     = ''Establish session error: code=MA_521,msg=current sidecar num exceed the limit: 1,1 ''"
  by code_simp

lemma cap_reached_rejects:
  assumes "upgrade w"
  shows "HandleAccept w noFloat 0 capReachedHandler sidecarRequest =
     (capReachedHandler,
      PreCheckError
        ''Establish session error: code=MA_521,msg=current sidecar num exceed the limit: 1,1 '')"
proof -
  let ?c = "makeSessConf capReachedHandler sidecarInfo"
  have c: "confContainerID ?c = ''c1''" "confTargetType ?c = TargetContainer"
    "confDisableCleanMode ?c = False"
    by (simp_all add: makeSessConf_def sidecarInfo_def)
  have rt: "Runtime (config capReachedHandler) = Docker"
    "authHandler capReachedHandler = None" "dockerClient capReachedHandler = LiveClient"
    "currentSidecarNum capReachedHandler = 1" "Limit (config capReachedHandler) = 1"
    "staleSessions capReachedHandler = Map.empty"
    by (simp_all add: capReachedHandler_def capOneHandler_def dockerConfig_def)
  have p: "containerPreCheck w capReachedHandler ?c Docker
           = (capReachedHandler, True,
              Some (sidecarLimitError 1 1))"
    by (simp add: containerPreCheck_def checkContainerRuntime_def checkSidecarNum_def
        c rt Docker_def Containerd_def)
  have r: "reclaim capReachedHandler sidecarInfo = (None, capReachedHandler)"
    by (simp add: reclaim_def rt)
  have t: "SessionID sidecarInfo = []"
    by (simp add: sidecarInfo_def)
  have n: "newSession w capReachedHandler sidecarInfo sid =
     (capReachedHandler,
      PreCheckError
        ''Establish session error: code=MA_521,msg=current sidecar num exceed the limit: 1,1 '')" for sid
    unfolding newSession_def Let_def
    by (simp add: p rt c cap_message)
  show ?thesis
    using assms
    by (simp add: HandleAccept_def sidecarRequest_info r rt t n)
qed

text \<open>
  Claim C1, evaluated on the code.  The broker has the limit 1 and the gauge 0.  A
  first request for a sidecar-attached session is accepted (session 1) and leaves
  the broker unchanged, the gauge still 0 and not 1; a second such request arriving
  in that state, while session 1 is active, is accepted as well (session 2) instead
  of being refused with \<open>MA_521\<close>.
\<close>

theorem sidecar_cap_not_enforced:
  "Limit (config capOneHandler) = 1 \<and> currentSidecarNum capOneHandler = 0
   \<and> HandleAccept (worldYielding 1) noFloat 0 capOneHandler sidecarRequest =
       (capOneHandler,
        Wired \<lparr> requestInfo = sidecarInfo, sessID = ''20261031120000'', localSess = 1,
                localIsSidecarSession = False \<rparr>)
   \<and> HandleAccept (worldYielding 2) noFloat 0 capOneHandler sidecarRequest =
       (capOneHandler,
        Wired \<lparr> requestInfo = sidecarInfo, sessID = ''20261031120000'', localSess = 2,
                localIsSidecarSession = False \<rparr>)"
  by (simp add: first_sidecar_session) (simp add: capOneHandler_def dockerConfig_def)




















section \<open>Host login: which users \<open>nsenter\<close> refuses\<close>

lemma findUserIn_none:
  "\<not> list_ex (acceptsLine username) ls \<Longrightarrow> findUserIn username atEnd ls = atEnd"
  by (induction ls) (auto simp: acceptsLine_def Let_def)

lemma sublist_past_literal:
  assumes "sublist p (lit @ s)" "\<not> sublist p lit" "lit \<noteq> []" "last lit \<notin> set p"
  shows "sublist p s"
proof -
  from assms(1) consider "sublist p lit" | "sublist p s"
    | xs1 xs2 where "p = xs1 @ xs2" "suffix xs1 lit" "prefix xs2 s"
    by (auto simp: sublist_append)
  then show ?thesis
  proof cases
    case 1
    with assms(2) show ?thesis by simp
  next
    case 2
    then show ?thesis .
  next
    case 3
    show ?thesis
    proof (cases "xs1 = []")
      case True
      with 3 have "prefix p s" by simp
      then show ?thesis by (auto simp: prefix_def)
    next
      case False
      from 3(2) obtain zs where z: "lit = zs @ xs1" by (auto simp: suffix_def)
      with False have "last lit = last xs1" by simp
      with False have "last lit \<in> set xs1" by simp
      with 3(1) have "last lit \<in> set p" by simp
      with assms(4) show ?thesis by simp
    qed
  qed
qed

text \<open>
  No line is accepted for a user name when every line either is not an entry of
  that name (not seven fields, or another first field), or mentions \<open>nologin\<close>, or
  has a last field that does not end in \<open>sh\<close> and the newline: the name is absent,
  or its shell is refused.
\<close>

lemma absent_or_refused:
  assumes "list_all (\<lambda>line. length (Split line CHR '':'') \<noteq> 7
                            \<or> Split line CHR '':'' ! 0 \<noteq> username
                            \<or> Contains line ''nologin''
                            \<or> \<not> HasSuffix (Split line CHR '':'' ! 6) [CHR ''s'', CHR ''h'', newline])
             ls"
  shows "\<not> list_ex (acceptsLine username) ls"
  using assms
  by (induction ls) (auto simp: acceptsLine_def Let_def expectedPasswdSegmentsCount_def)

text \<open>
  How \<open>WrapErrorWithCode\<close> classifies \<open>user does not exist:<name>\<close>: none of the
  eight texts it looks for first occurs in \<open>user does not exist:\<close>, nor across the
  colon, so these tests see the name alone.
\<close>

lemma contains_past_literal:
  assumes "\<not> sublist p lit" "lit \<noteq> []" "last lit \<notin> set p"
  shows "Contains (lit @ name) p = Contains name p"
proof
  assume "Contains (lit @ name) p"
  with assms show "Contains name p"
    unfolding Contains_def by (auto intro: sublist_past_literal)
next
  assume "Contains name p"
  then show "Contains (lit @ name) p"
    unfolding Contains_def by (auto simp: sublist_append)
qed

lemma user_missing_classified:
  "errorCode (''user does not exist:'' @ name)
     = (if list_ex (Contains name) earlierSentinels then errorCode name else ''MA_526'')"
proof -
  define msg where "msg = ''user does not exist:'' @ name"
  have here: "Contains msg ''user does not exist''"
    unfolding Contains_def msg_def
    using sublist_appendI[of "''user does not exist''" "[]" "'':'' @ name"] by simp
  have s:
    "\<not> sublist ''no space left on device'' ''user does not exist:''"
    "\<not> sublist ''visit authorization server failed'' ''user does not exist:''"
    "\<not> sublist ''verify client certificate error'' ''user does not exist:''"
    "\<not> sublist ''current sidecar num exceed the limit'' ''user does not exist:''"
    "\<not> sublist ''can't find container'' ''user does not exist:''"
    "\<not> sublist ''container is not running'' ''user does not exist:''"
    "\<not> sublist ''docker daemon is unavailable'' ''user does not exist:''"
    "\<not> sublist ''is not permitted to login on host'' ''user does not exist:''"
    by code_simp+
  have e:
    "Contains msg ''no space left on device'' = Contains name ''no space left on device''"
    "Contains msg ''visit authorization server failed''
       = Contains name ''visit authorization server failed''"
    "Contains msg ''verify client certificate error''
       = Contains name ''verify client certificate error''"
    "Contains msg ''current sidecar num exceed the limit''
       = Contains name ''current sidecar num exceed the limit''"
    "Contains msg ''can't find container'' = Contains name ''can't find container''"
    "Contains msg ''container is not running'' = Contains name ''container is not running''"
    "Contains msg ''docker daemon is unavailable'' = Contains name ''docker daemon is unavailable''"
    "Contains msg ''is not permitted to login on host''
       = Contains name ''is not permitted to login on host''"
    unfolding msg_def by (rule contains_past_literal, rule s, simp, simp)+
  have l: "list_ex (Contains name) earlierSentinels =
     (Contains name ''no space left on device''
      \<or> Contains name ''visit authorization server failed''
      \<or> Contains name ''verify client certificate error''
      \<or> Contains name ''current sidecar num exceed the limit''
      \<or> Contains name ''can't find container''
      \<or> Contains name ''container is not running''
      \<or> Contains name ''docker daemon is unavailable''
      \<or> Contains name ''is not permitted to login on host'')"
    by (simp add: earlierSentinels_def)
  have "errorCode msg = (if list_ex (Contains name) earlierSentinels then errorCode name else ''MA_526'')"
    unfolding l errorCode_def[of msg] errorCode_def[of name] e
    using here by auto
  then show ?thesis by (simp only: msg_def)
qed

text \<open>
  Claim C7, as the code has it.  \<open>findUser\<close> returns three empty strings both for a
  login name that the passwd file does not list and for one whose line mentions
  \<open>nologin\<close> or whose shell does not end in \<open>sh\<close>: whenever no line of the file is
  accepted for the login name, \<open>establishNsenterSession\<close> fails with
  \<open>user does not exist:<name>\<close>.  This error is classified \<open>MA_526\<close>, unless the name
  itself contains one of the eight texts tested earlier: then it is classified as
  the name alone would be.
\<close>

theorem nsenter_unresolved_user:
  assumes "confLoginName c \<noteq> []"
    and "\<not> list_ex (acceptsLine (confLoginName c)) (linesFrom [] content)"
  shows "establishNsenterSession start (Readable content) c
           = Inl (''user does not exist:'' @ confLoginName c)
         \<and> errorCode (''user does not exist:'' @ confLoginName c)
           = (if list_ex (Contains (confLoginName c)) earlierSentinels
              then errorCode (confLoginName c) else ''MA_526'')"
proof
  from assms show "establishNsenterSession start (Readable content) c
           = Inl (''user does not exist:'' @ confLoginName c)"
    by (simp add: establishNsenterSession_def GetUserInfo_def findUser_def findUserIn_none)
next
  show "errorCode (''user does not exist:'' @ confLoginName c)
           = (if list_ex (Contains (confLoginName c)) earlierSentinels
              then errorCode (confLoginName c) else ''MA_526'')"
    by (rule user_missing_classified)
qed

theorem nsenter_unresolved_user_witness:
  "confLoginName (hostLogin ''daemon'') \<noteq> []
   \<and> \<not> list_ex (acceptsLine (confLoginName (hostLogin ''daemon''))) (linesFrom [] examplePasswd)
   \<and> \<not> list_ex (Contains (confLoginName (hostLogin ''daemon''))) earlierSentinels
   \<and> establishNsenterSession startOk (Readable examplePasswd) (hostLogin ''daemon'')
        = Inl (''user does not exist:'' @ confLoginName (hostLogin ''daemon''))
   \<and> errorCode (''user does not exist:'' @ confLoginName (hostLogin ''daemon'')) = ''MA_526''"
proof -
  have a: "confLoginName (hostLogin ''daemon'') \<noteq> []"
    by (simp add: hostLogin_def)
  have b: "\<not> list_ex (acceptsLine (confLoginName (hostLogin ''daemon''))) (linesFrom [] examplePasswd)"
    by code_simp
  have d: "\<not> list_ex (Contains (confLoginName (hostLogin ''daemon''))) earlierSentinels"
    by code_simp
  from nsenter_unresolved_user[OF a b, of startOk] a b d show ?thesis
    by (simp only: if_False simp_thms)
qed

text \<open>
  The user \<open>daemon\<close> is listed with the shell \<open>/usr/sbin/nologin\<close>: the specification
  classifies the refusal as \<open>MA_525\<close>, the code answers \<open>user does not exist:daemon\<close>,
  which is \<open>MA_526\<close>.
\<close>

theorem nologin_user_counterexample:
  "specLoginCode ''daemon'' examplePasswd = Some ''MA_525''
   \<and> establishNsenterSession startOk (Readable examplePasswd) (hostLogin ''daemon'')
        = Inl ''user does not exist:daemon''
   \<and> errorCode ''user does not exist:daemon'' = ''MA_526''"
  by code_simp

lemma absent_user_example:
  "specLoginCode ''carol'' examplePasswd = Some ''MA_526''
   \<and> establishNsenterSession startOk (Readable examplePasswd) (hostLogin ''carol'')
        = Inl ''user does not exist:carol''
   \<and> errorCode ''user does not exist:carol'' = ''MA_526''"
  by code_simp

lemma admitted_user_example:
  "establishNsenterSession startOk (Readable examplePasswd) (hostLogin ''root'') = Inr 1"
  by code_simp

text \<open>
  The other reader of the passwd file, \<open>GetLoginDirAndIDs\<close>, answers a user that is
  not listed and a user with a refused shell alike as well, with the text that is
  classified \<open>MA_525\<close>.
\<close>

lemma GetLoginDirAndIDs_unresolved:
  assumes "\<not> list_ex (acceptsLine username) (linesFrom [] content)"
  shows "GetLoginDirAndIDs username (Readable content) rootfsPrefix
           = Inl (''username '' @ username @ '' is not permitted to login on host'')"
  using assms by (simp add: GetLoginDirAndIDs_def findUser_def findUserIn_none)

lemma GetLoginDirAndIDs_examples:
  "GetLoginDirAndIDs ''carol'' (Readable examplePasswd) ''/rootfs''
     = Inl ''username carol is not permitted to login on host''
   \<and> GetLoginDirAndIDs ''daemon'' (Readable examplePasswd) ''/rootfs''
     = Inl ''username daemon is not permitted to login on host''
   \<and> errorCode ''username carol is not permitted to login on host'' = ''MA_525''
   \<and> GetLoginDirAndIDs ''bob'' (Readable examplePasswd) ''/rootfs''
     = Inr (1000, 1000, ''/rootfs/home/bob'')"
  by code_simp

text \<open>
  A login name that contains one of the earlier texts: the passwd file does not list
  it, the error is \<open>user does not exist:<name>\<close> as for any other name, and its
  classification is that of the text inside the name.
\<close>

lemma name_with_sentinel_example:
  "establishNsenterSession startOk (Readable examplePasswd)
       (hostLogin ''x is not permitted to login on host'')
     = Inl ''user does not exist:x is not permitted to login on host''
   \<and> errorCode ''user does not exist:x is not permitted to login on host'' = ''MA_525''"
  by code_simp

section \<open>Cleaning a docker session twice\<close>

text \<open>
  Whatever the daemon answers, the second of two calls of \<open>Clean\<close> on a docker
  session does not return: after a first call that returned, \<open>s.conn\<close> is nil and
  the call \<open>s.conn.Close()\<close> panics.
\<close>

lemma Clean_twice:
  "fst (dockerSession_Clean api (snd (dockerSession_Clean api s))) =
     (case fst (dockerSession_Clean api s) of
        Returns err \<Rightarrow> Panics nilDereference
      | Panics msg \<Rightarrow> Blocks
      | Blocks \<Rightarrow> Blocks)"
  by (auto simp: dockerSession_Clean_def Let_def split: option.splits)

text \<open>
  A first call on a session with its connection returns, and leaves \<open>s.conn\<close> nil
  and the mutex free.
\<close>

lemma Clean_once:
  "\<not> lockHeld s \<Longrightarrow> conn s = Some fd \<Longrightarrow>
     \<exists>err. dockerSession_Clean api s = (Returns err, s\<lparr>conn := None\<rparr>)"
  by (auto simp: dockerSession_Clean_def Let_def split: option.splits)

text \<open>
  The panic happens between \<open>Lock\<close> and \<open>Unlock\<close>: the mutex stays locked, and
  \<open>NextStdin\<close>, which does test \<open>s.conn\<close> for nil, can no more proceed.
\<close>

lemma panicked_Clean_keeps_lock:
  "\<not> lockHeld s \<Longrightarrow> conn s = None \<Longrightarrow>
     dockerSession_Clean api s = (Panics nilDereference, s\<lparr>lockHeld := True\<rparr>)
     \<and> dockerSession_NextStdin (s\<lparr>lockHeld := True\<rparr>) = Blocks"
  by (simp add: dockerSession_Clean_def dockerSession_NextStdin_def)

text \<open>
  Claim C6, evaluated on the code.  A sidecar-attached session and a direct-exec
  session, each cleaned twice with a daemon that reports no error: the first call
  returns nil, the second panics with a nil pointer dereference and leaves the mutex
  of the session locked.
\<close>

theorem second_Clean_panics:
  "dockerSession_Clean quietAPI (newSidecarSession (containerLogin False) ''s1'' 7) =
     (Returns None, (newSidecarSession (containerLogin False) ''s1'' 7)\<lparr>conn := None\<rparr>)
   \<and> dockerSession_Clean quietAPI ((newSidecarSession (containerLogin False) ''s1'' 7)\<lparr>conn := None\<rparr>) =
     (Panics nilDereference,
      (newSidecarSession (containerLogin False) ''s1'' 7)\<lparr>conn := None, lockHeld := True\<rparr>)
   \<and> dockerSession_Clean quietAPI (newExecSession (containerLogin True) ''e1'' 7) =
     (Returns None, (newExecSession (containerLogin True) ''e1'' 7)\<lparr>conn := None\<rparr>)
   \<and> dockerSession_Clean quietAPI ((newExecSession (containerLogin True) ''e1'' 7)\<lparr>conn := None\<rparr>) =
     (Panics nilDereference,
      (newExecSession (containerLogin True) ''e1'' 7)\<lparr>conn := None, lockHeld := True\<rparr>)"
  by (simp add: dockerSession_Clean_def newSidecarSession_def newExecSession_def quietAPI_def
      Let_def)

section \<open>The output stream of a docker session\<close>

text \<open>
  \<open>streamUnifiedOutput\<close> hands every byte it reads to \<open>stdoutCh\<close>, and nothing to
  \<open>stderrCh\<close>.
\<close>

lemma unified_bytes:
  "stdoutBytes (streamUnifiedOutput reads) = concat reads
   \<and> stderrBytes (streamUnifiedOutput reads) = []"
proof (induction reads)
  case Nil
  show ?case by simp
next
  case (Cons buf reads)
  have a: "stdoutBytes (xs @ ys) = stdoutBytes xs @ stdoutBytes ys" for xs ys
    by (induction xs rule: stdoutBytes.induct) simp_all
  have b: "stderrBytes (xs @ ys) = stderrBytes xs @ stderrBytes ys" for xs ys
    by (induction xs rule: stderrBytes.induct) simp_all
  from Cons show ?case by (simp add: a b)
qed

text \<open>
  Which of the two readers runs: with clean mode disabled (an exec in the target
  container) the argument \<open>exec\<close> of \<open>handleStreamOutput\<close> is false, and the stream
  is read by \<open>streamUnifiedOutput\<close> whether or not there is a terminal.
\<close>

lemma direct_exec_unified:
  "confDisableCleanMode c \<Longrightarrow> outputGoroutine c s reads = streamUnifiedOutput reads"
  by (simp add: outputGoroutine_def handleStreamOutput_def)

lemma sidecar_split:
  "\<not> confDisableCleanMode c \<Longrightarrow> \<not> tty_docker s \<Longrightarrow>
     outputGoroutine c s reads = streamSplitOutput (concat reads)"
  by (simp add: outputGoroutine_def handleStreamOutput_def)

lemma of_char_char_of_nat: "(of_char (char_of (n::nat)) :: nat) = n mod 256"
  by simp

text \<open>
  The header of a frame, read back.
\<close>

lemma four_bytes:
  fixes len :: nat
  assumes "len < 2 ^ 32"
  shows "len mod 256 + (len div 2 ^ 8) mod 256 * 2 ^ 8 + (len div 2 ^ 16) mod 256 * 2 ^ 16
          + (len div 2 ^ 24) mod 256 * 2 ^ 24 = len"
proof -
  define x1 where "x1 = len div 256"
  define x2 where "x2 = x1 div 256"
  define x3 where "x3 = x2 div 256"
  define r0 where "r0 = len mod 256"
  define r1 where "r1 = x1 mod 256"
  define r2 where "r2 = x2 mod 256"
  have e0: "len = r0 + 256 * x1" by (simp add: r0_def x1_def)
  have e1: "x1 = r1 + 256 * x2" by (simp add: r1_def x2_def)
  have e2: "x2 = r2 + 256 * x3" by (simp add: r2_def x3_def)
  have d2: "len div 65536 = x2"
    by (simp add: x2_def x1_def div_mult2_eq)
  have d3: "len div 16777216 = x3"
    by (simp add: x3_def x2_def x1_def div_mult2_eq)
  have "x3 < 256"
    using assms unfolding d3[symmetric] by (simp add: less_mult_imp_div_less)
  then have m3: "x3 mod 256 = x3" by simp
  have "r0 + r1 * 256 + r2 * 65536 + x3 * 16777216 = len"
    using e0 e1 e2 by linarith
  then show ?thesis
    by (simp add: d2 d3 m3 r0_def r1_def r2_def x1_def[symmetric])
qed

lemma BigEndian_header:
  assumes "len < 2 ^ 32"
  shows "BigEndianUint32 (take 4 (drop stdWriterSizeIndex (frameHeader stream len))) = len"
proof -
  from assms have "len div 16777216 < 256"
    by (simp add: less_mult_imp_div_less)
  then have "len div 16777216 mod 256 = len div 16777216"
    by simp
  with four_bytes[OF assms] show ?thesis
    by (simp add: BigEndianUint32_def frameHeader_def stdWriterSizeIndex_def)
qed

lemma stream_header:
  assumes "stream < 256"
  shows "of_char (take stdWriterPrefixLen (frameHeader stream len @ rest) ! stdWriterFdIndex) = stream"
  using assms by (simp add: frameHeader_def stdWriterPrefixLen_def stdWriterFdIndex_def)

lemma length_frameHeader: "length (frameHeader stream len) = 8"
  by (simp add: frameHeader_def)

lemma split_frame:
  assumes "stream < 256" "length payload < 2 ^ 32"
  shows "streamSplitOutput (frame (stream, payload) @ rest)
           = frameLoop stream (length payload) 0 (payload @ rest)"
proof -
  have t: "take stdWriterPrefixLen (frame (stream, payload) @ rest) = frameHeader stream (length payload)"
    by (simp add: frame_def stdWriterPrefixLen_def length_frameHeader)
  have d: "drop stdWriterPrefixLen (frame (stream, payload) @ rest) = payload @ rest"
    by (simp add: frame_def stdWriterPrefixLen_def length_frameHeader)
  have l: "\<not> length (frame (stream, payload) @ rest) < stdWriterPrefixLen"
    by (simp add: frame_def stdWriterPrefixLen_def length_frameHeader)
  have s: "of_char (frameHeader stream (length payload) ! stdWriterFdIndex) = stream"
    using stream_header[OF assms(1), of "length payload" "[]"]
    by (simp add: stdWriterPrefixLen_def length_frameHeader)
  show ?thesis
    by (subst streamSplitOutput.simps)
       (simp only: l if_False t d Let_def s BigEndian_header[OF assms(2)])
qed

lemma frameLoop_done: "frameLoop stream frameSize frameSize input = streamSplitOutput input"
  by (subst frameLoop.simps) simp

text \<open>
  The inner loop on the payload of a frame.
\<close>

lemma frameLoop_step:
  assumes "payload \<noteq> []" "nr + length payload = frameSize"
  shows "frameLoop stream frameSize nr (payload @ rest) =
           (if stream = stdin then []
            else if stream = stdout then
              SendStdout (take (min (length payload) bufferSize) payload)
                # frameLoop stream frameSize (nr + min (length payload) bufferSize)
                    (drop (min (length payload) bufferSize) payload @ rest)
            else if stream = stderr then
              SendStderr (take (min (length payload) bufferSize) payload)
                # frameLoop stream frameSize (nr + min (length payload) bufferSize)
                    (drop (min (length payload) bufferSize) payload @ rest)
            else [])"
proof -
  from assms have a: "\<not> frameSize \<le> nr" and l: "frameSize - nr = length payload"
    by auto
  have n: "(if length payload < bufferSize then length payload else bufferSize)
             = min (length payload) bufferSize"
    by (simp add: min_def)
  show ?thesis
    by (subst frameLoop.simps) (simp add: a l n Let_def)
qed

lemma frameLoop_stdout:
  assumes "nr + length payload = frameSize"
  shows "stdoutBytes (frameLoop stdout frameSize nr (payload @ rest))
           = payload @ stdoutBytes (streamSplitOutput rest)
         \<and> stderrBytes (frameLoop stdout frameSize nr (payload @ rest))
           = stderrBytes (streamSplitOutput rest)"
  using assms
proof (induction "length payload" arbitrary: nr payload rule: less_induct)
  case less
  show ?case
  proof (cases "payload = []")
    case True
    with less.prems show ?thesis by (simp add: frameLoop_done)
  next
    case False
    define n where "n = min (length payload) bufferSize"
    from False have pos: "0 < n" by (simp add: n_def bufferSize_def)
    then have shorter: "length (drop n payload) < length payload"
      using False by simp
    have sum: "(nr + n) + length (drop n payload) = frameSize"
      using less.prems by (simp add: n_def)
    from less.hyps[OF shorter sum] frameLoop_step[OF False less.prems, of stdout rest]
    show ?thesis
      by (simp add: n_def stdout_def stdin_def)
  qed
qed

lemma frameLoop_stderr:
  assumes "nr + length payload = frameSize"
  shows "stderrBytes (frameLoop stderr frameSize nr (payload @ rest))
           = payload @ stderrBytes (streamSplitOutput rest)
         \<and> stdoutBytes (frameLoop stderr frameSize nr (payload @ rest))
           = stdoutBytes (streamSplitOutput rest)"
  using assms
proof (induction "length payload" arbitrary: nr payload rule: less_induct)
  case less
  show ?case
  proof (cases "payload = []")
    case True
    with less.prems show ?thesis by (simp add: frameLoop_done)
  next
    case False
    define n where "n = min (length payload) bufferSize"
    from False have pos: "0 < n" by (simp add: n_def bufferSize_def)
    then have shorter: "length (drop n payload) < length payload"
      using False by simp
    have sum: "(nr + n) + length (drop n payload) = frameSize"
      using less.prems by (simp add: n_def)
    from less.hyps[OF shorter sum] frameLoop_step[OF False less.prems, of stderr rest]
    show ?thesis
      by (simp add: n_def stdout_def stdin_def stderr_def)
  qed
qed

lemma frameLoop_other:
  assumes "payload \<noteq> []" "stream \<noteq> stdout" "stream \<noteq> stderr"
  shows "frameLoop stream (length payload) 0 (payload @ rest) = []"
  using frameLoop_step[of payload 0 "length payload" stream rest] assms by simp

text \<open>
  On a stream of whole frames \<open>streamSplitOutput\<close> delivers what the
  specification asks for.
\<close>

lemma split_demux:
  assumes "list_all wellFramed frames"
  shows "stdoutBytes (streamSplitOutput (concat (map frame frames))) = fst (specDemux frames)
         \<and> stderrBytes (streamSplitOutput (concat (map frame frames))) = snd (specDemux frames)"
  using assms
proof (induction frames)
  case Nil
  show ?case by (simp add: streamSplitOutput.simps stdWriterPrefixLen_def)
next
  case (Cons f frames)
  obtain stream payload where f: "f = (stream, payload)" by (cases f)
  from Cons.prems have wf: "wellFramed f" and rest: "list_all wellFramed frames"
    by simp_all
  from wf f have w: "stream < 256" "length payload < 2 ^ 32"
    "stream = stdout \<or> stream = stderr \<or> payload \<noteq> []"
    by (simp_all add: wellFramed_def)
  note IH = Cons.IH[OF rest]
  have s: "streamSplitOutput (concat (map frame (f # frames)))
             = frameLoop stream (length payload) 0 (payload @ concat (map frame frames))"
    using split_frame[OF w(1,2)] by (simp add: f)
  show ?case
  proof (cases "stream = stdout")
    case True
    with s IH frameLoop_stdout[of 0 payload "length payload"] show ?thesis
      by (simp add: f)
  next
    case False
    note notout = False
    show ?thesis
    proof (cases "stream = stderr")
      case True
      with s IH notout frameLoop_stderr[of 0 payload "length payload"] show ?thesis
        by (simp add: f)
    next
      case False
      with notout w(3) have "payload \<noteq> []" by simp
      from frameLoop_other[OF this notout False] s notout False show ?thesis
        by (simp add: f)
    qed
  qed
qed

text \<open>
  The two variants of a docker session without a terminal: the exec in the target
  container passes the stream on as it is, headers included; the sidecar session
  separates it.
\<close>

lemma direct_exec_bytes:
  assumes "confDisableCleanMode c"
  shows "stdoutBytes (outputGoroutine c s reads) = concat reads
         \<and> stderrBytes (outputGoroutine c s reads) = []"
  using unified_bytes[of reads] direct_exec_unified[OF assms, of s reads] by simp

lemma sidecar_demux:
  assumes "\<not> confDisableCleanMode c" "\<not> tty_docker s" "list_all wellFramed frames"
    "concat reads = concat (map frame frames)"
  shows "stdoutBytes (outputGoroutine c s reads) = fst (specDemux frames)
         \<and> stderrBytes (outputGoroutine c s reads) = snd (specDemux frames)"
  using split_demux[OF assms(3)] sidecar_split[OF assms(1,2), of reads] assms(4) by simp

text \<open>
  A frame of type stdin ends the reader, unless its length is 0.
\<close>

lemma split_end: "streamSplitOutput [] = [CloseStdout, CloseStderr]"
  by (simp add: streamSplitOutput.simps stdWriterPrefixLen_def)

lemma split_one_frame:
  assumes "stream = stdout \<or> stream = stderr" "payload \<noteq> []" "length payload < bufferSize"
  shows "streamSplitOutput (frame (stream, payload) @ rest) =
           (if stream = stdout then SendStdout payload else SendStderr payload)
             # streamSplitOutput rest"
proof -
  from assms(1) have b: "stream < 256" by (auto simp: stdout_def stderr_def)
  from assms(3) have l: "length payload < 2 ^ 32" by (simp add: bufferSize_def)
  from assms(3) have m: "min (length payload) bufferSize = length payload" by simp
  from assms(1) have n: "stream \<noteq> stdin" by (auto simp: stdout_def stderr_def stdin_def)
  show ?thesis
    using assms(1) n
    by (auto simp: split_frame[OF b l] frameLoop_step[OF assms(2), of 0 "length payload"] m
        frameLoop_done)
qed

lemma empty_stdin_frame_skipped:
  "streamSplitOutput (frame (stdin, []) @ frame (stdout, ''ok''))
     = [SendStdout ''ok'', CloseStdout, CloseStderr]
   \<and> streamSplitOutput (frame (stdin, ''x'') @ frame (stdout, ''ok'')) = []"
proof
  have "streamSplitOutput (frame (stdin, []) @ frame (stdout, ''ok'') @ [])
          = streamSplitOutput (frame (stdout, ''ok'') @ [])"
    using split_frame[of stdin "[]" "frame (stdout, ''ok'') @ []"]
    by (simp add: stdin_def frameLoop_done)
  also have "\<dots> = [SendStdout ''ok'', CloseStdout, CloseStderr]"
    using split_one_frame[of stdout "''ok''" "[]"] by (simp add: bufferSize_def split_end)
  finally show "streamSplitOutput (frame (stdin, []) @ frame (stdout, ''ok''))
     = [SendStdout ''ok'', CloseStdout, CloseStderr]"
    by simp
next
  show "streamSplitOutput (frame (stdin, ''x'') @ frame (stdout, ''ok'')) = []"
    using split_frame[of stdin "''x''" "frame (stdout, ''ok'')"]
      frameLoop_other[of "''x''" stdin "frame (stdout, ''ok'')"]
    by (simp add: stdin_def stdout_def stderr_def)
qed

text \<open>
  Claim C3, evaluated on the code.  The stream holds one frame for stderr with the
  payload \<open>hi\<close>.  The direct-exec session without a terminal sends the ten bytes
  of the frame, header included, on \<open>stdoutCh\<close> and nothing on \<open>stderrCh\<close>, where the
  framing gives \<open>hi\<close> to stderr; the sidecar-attached session does send \<open>hi\<close> on
  \<open>stderrCh\<close>.
\<close>

theorem direct_exec_not_demultiplexed:
  "confDisableCleanMode (containerLogin True) \<and> \<not> confTty (containerLogin True)
   \<and> outputGoroutine (containerLogin True) (newExecSession (containerLogin True) ''e1'' 7)
         [stderrFrameHi]
       = [SendStdout stderrFrameHi, CloseStdout, CloseStderr]
   \<and> stderrFrameHi = frame (stderr, ''hi'')
   \<and> specDemux [(stderr, ''hi'')] = ([], ''hi'')
   \<and> outputGoroutine (containerLogin False) (newSidecarSession (containerLogin False) ''s1'' 7)
         [stderrFrameHi]
       = [SendStderr ''hi'', CloseStdout, CloseStderr]"
proof (intro conjI)
  show "confDisableCleanMode (containerLogin True)" and "\<not> confTty (containerLogin True)"
    by (simp_all add: containerLogin_def)
  have ne: "stderrFrameHi \<noteq> []"
    by (simp add: stderrFrameHi_def frame_def frameHeader_def)
  show "outputGoroutine (containerLogin True) (newExecSession (containerLogin True) ''e1'' 7)
         [stderrFrameHi]
       = [SendStdout stderrFrameHi, CloseStdout, CloseStderr]"
    using ne by (simp add: outputGoroutine_def handleStreamOutput_def containerLogin_def)
  show "stderrFrameHi = frame (stderr, ''hi'')"
    by (simp add: stderrFrameHi_def)
  show "specDemux [(stderr, ''hi'')] = ([], ''hi'')"
    by (simp add: stderr_def stdout_def)
  have "streamSplitOutput (frame (stderr, ''hi'') @ []) = [SendStderr ''hi'', CloseStdout, CloseStderr]"
    using split_one_frame[of stderr "''hi''" "[]"]
    by (simp add: bufferSize_def split_end stderr_def stdout_def)
  then show "outputGoroutine (containerLogin False)
         (newSidecarSession (containerLogin False) ''s1'' 7) [stderrFrameHi]
       = [SendStderr ''hi'', CloseStdout, CloseStderr]"
    by (simp add: outputGoroutine_def handleStreamOutput_def containerLogin_def
        newSidecarSession_def stderrFrameHi_def)
qed

section \<open>The exit-code accessors\<close>

lemma docker_ExitCode_spec:
  "fst (dockerSession_ExitCode api d)
     = specExitCode (0 < stdoutDone d) (0 < stderrDone d)
         (daemonExitCode api (d\<lparr>stdoutDone := stdoutDone d - 1, stderrDone := stderrDone d - 1\<rparr>))"
  by (simp add: dockerSession_ExitCode_def specExitCode_def Let_def)

lemma daemonExitCode_channels:
  "daemonExitCode api (d\<lparr>stdoutDone := a, stderrDone := b\<rparr>) = daemonExitCode api d"
  by (simp add: daemonExitCode_def)

lemma containerd_after_wait:
  "containerdSession_ExitCode (snd (containerdSession_wait exited c))
     = Returns (int (case exited of
                       None \<Rightarrow> exitCode_containerd c
                     | Some (code, err) \<Rightarrow>
                         if 0 < stdoutDone c \<and> 0 < stderrDone c then code
                         else exitCode_containerd c))"
  by (auto simp: containerdSession_ExitCode_def containerdSession_wait_def Let_def
      split: option.splits)

lemma nsenter_after_wait:
  "nsenterSession_ExitCode (snd (nsenterSession_wait getExitCode n))
     = Returns (case getExitCode of
                  None \<Rightarrow> if exitCh_nsenter n then exitCode_nsenter n else 0
                | Some code \<Rightarrow>
                    if (if tty_nsenter n then ptyChan n else True)
                        \<and> 0 < stdoutDone n \<and> 0 < stderrDone n then code
                    else if exitCh_nsenter n then exitCode_nsenter n else 0)"
  by (auto simp: nsenterSession_ExitCode_def nsenterSession_wait_def Let_def
      split: option.splits)

lemma ssh_after_wait:
  "sshSession_ExitCode (snd (sshSession_wait sessionWait h))
     = Returns (if 0 < stdoutDone h \<and> 0 < stderrDone h then
                  (case sessionWait of
                     None \<Rightarrow> if exitCh_ssh h then exitCode_ssh h else 0
                   | Some None \<Rightarrow> exitCode_ssh h
                   | Some (Some (ExitError status)) \<Rightarrow> status
                   | Some (Some (OtherError msg)) \<Rightarrow> exitCode_ssh h)
                else if exitCh_ssh h then exitCode_ssh h else 0)"
  by (auto simp: sshSession_ExitCode_def sshSession_wait_def Let_def
      split: option.splits WaitError.splits)

text \<open>
  Claim C4, as the code has it.  The accessor of a docker session (sidecar-attached
  or direct-exec) is the accessor of the specification: it blocks until it has
  received both done signals and then returns the status the daemon reports.  The
  accessors of an nsenter and of an SSH session do not block: they return the stored
  code if the goroutine \<open>wait\<close>, which needs both done signals and the end of the
  command, has closed \<open>exitCh\<close> by the end of two seconds, and 0 otherwise.
\<close>

theorem exit_code_accessors:
  "fst (dockerSession_ExitCode api d)
     = specExitCode (0 < stdoutDone d) (0 < stderrDone d) (daemonExitCode api d)
   \<and> nsenterSession_ExitCode (newNsenterSession tty) = Returns 0
   \<and> nsenterSession_ExitCode (snd (nsenterSession_wait getExitCode n))
       = Returns (case getExitCode of
                    None \<Rightarrow> if exitCh_nsenter n then exitCode_nsenter n else 0
                  | Some code \<Rightarrow>
                      if (if tty_nsenter n then ptyChan n else True)
                          \<and> 0 < stdoutDone n \<and> 0 < stderrDone n then code
                      else if exitCh_nsenter n then exitCode_nsenter n else 0)
   \<and> sshSession_ExitCode newSSHSession = Returns 0
   \<and> sshSession_ExitCode (snd (sshSession_wait sessionWait h))
       = Returns (if 0 < stdoutDone h \<and> 0 < stderrDone h then
                    (case sessionWait of
                       None \<Rightarrow> if exitCh_ssh h then exitCode_ssh h else 0
                     | Some None \<Rightarrow> exitCode_ssh h
                     | Some (Some (ExitError status)) \<Rightarrow> status
                     | Some (Some (OtherError msg)) \<Rightarrow> exitCode_ssh h)
                  else if exitCh_ssh h then exitCode_ssh h else 0)"
proof (intro conjI)
  show "fst (dockerSession_ExitCode api d)
     = specExitCode (0 < stdoutDone d) (0 < stderrDone d) (daemonExitCode api d)"
    using docker_ExitCode_spec[of api d] by (simp add: daemonExitCode_channels)
  show "nsenterSession_ExitCode (newNsenterSession tty) = Returns 0"
    by (simp add: nsenterSession_ExitCode_def newNsenterSession_def)
  show "nsenterSession_ExitCode (snd (nsenterSession_wait getExitCode n))
       = Returns (case getExitCode of
                    None \<Rightarrow> if exitCh_nsenter n then exitCode_nsenter n else 0
                  | Some code \<Rightarrow>
                      if (if tty_nsenter n then ptyChan n else True)
                          \<and> 0 < stdoutDone n \<and> 0 < stderrDone n then code
                      else if exitCh_nsenter n then exitCode_nsenter n else 0)"
    by (rule nsenter_after_wait)
  show "sshSession_ExitCode newSSHSession = Returns 0"
    by (simp add: sshSession_ExitCode_def newSSHSession_def)
  show "sshSession_ExitCode (snd (sshSession_wait sessionWait h))
       = Returns (if 0 < stdoutDone h \<and> 0 < stderrDone h then
                    (case sessionWait of
                       None \<Rightarrow> if exitCh_ssh h then exitCode_ssh h else 0
                     | Some None \<Rightarrow> exitCode_ssh h
                     | Some (Some (ExitError status)) \<Rightarrow> status
                     | Some (Some (OtherError msg)) \<Rightarrow> exitCode_ssh h)
                  else if exitCh_ssh h then exitCode_ssh h else 0)"
    by (rule ssh_after_wait)
qed

text \<open>
  A new nsenter session and a new SSH session, on which no done signal has fired:
  the accessor of the specification blocks, the code returns 0 once its two seconds
  are over.
\<close>

theorem nsenter_exit_code_counterexample:
  "stdoutDone (newNsenterSession False) = 0 \<and> stderrDone (newNsenterSession False) = 0
   \<and> specExitCode (0 < stdoutDone (newNsenterSession False))
         (0 < stderrDone (newNsenterSession False)) 3 = Blocks
   \<and> nsenterSession_ExitCode (newNsenterSession False) = Returns 0
   \<and> stdoutDone newSSHSession = 0 \<and> stderrDone newSSHSession = 0
   \<and> sshSession_ExitCode newSSHSession = Returns 0"
  by (simp add: specExitCode_def nsenterSession_ExitCode_def newNsenterSession_def
      sshSession_ExitCode_def newSSHSession_def)

text \<open>
  The accessor of a containerd session neither blocks nor waits: it returns the
  field \<open>exitCode\<close>, which the goroutine \<open>wait\<close> stores only after it has received both
  done signals.  \<open>processLocalOutput\<close> reads the exit code as soon as \<open>StdoutDone\<close> has
  returned: with the stdout signal taken and the stderr signal still to come, a
  command that has ended with status 3 is reported with the exit code 0.
\<close>

lemma containerd_status_lost:
  "fst (containerdSession_wait (Some (3, None)) (newContainerdSession\<lparr>stdoutDone := 1\<rparr>))
     = Blocks
   \<and> stdoutDone (snd (containerdSession_wait (Some (3, None))
                        (newContainerdSession\<lparr>stdoutDone := 1\<rparr>))) = 0
   \<and> containerdSession_ExitCode
        (snd (containerdSession_wait (Some (3, None)) (newContainerdSession\<lparr>stdoutDone := 1\<rparr>)))
     = Returns 0"
  by (simp add: containerdSession_wait_def containerdSession_ExitCode_def
      newContainerdSession_def)

section \<open>The sweeper of legacy sidecar containers\<close>

lemma removesIssued_append: "removesIssued (xs @ ys) = removesIssued xs @ removesIssued ys"
  by (induction xs rule: removesIssued.induct) simp_all

lemma sleeps_append: "sleeps (xs @ ys) = sleeps xs @ sleeps ys"
  by (induction xs rule: sleeps.induct) simp_all

text \<open>
  The removes of a round: one for each listed container that passes the test, in
  the order of the listing, whatever the earlier removes have answered.
\<close>

lemma removesIssued_removeLegacy:
  "removesIssued (removeLegacy env containers)
     = map ID (filter (\<lambda>c. HasPrefix (Image c) defaultSidecarImage \<and> State c \<noteq> ''running''
                            \<and> Unix (Created c) < timeNow env c - Hour) containers)"
  by (induction containers) (auto split: option.splits)

lemma sleeps_removeLegacy: "sleeps (removeLegacy env containers) = []"
  by (induction containers) (auto split: option.splits)

lemma cleanRound_removes:
  "removesIssued (cleanRound env) = specRemoves defaultSidecarImage env"
  by (cases "ContainerList env")
     (simp_all add: cleanRound_def specRemoves_def specLegacy_def removesIssued_removeLegacy)

lemma cleanRound_sleeps: "sleeps (cleanRound env) = [defaultCleanLegacySidecarPeriod]"
  by (cases "ContainerList env") (simp_all add: cleanRound_def sleeps_removeLegacy)

lemma removal_failures_skipped:
  "removesIssued (removeLegacy (env\<lparr>forceRemove := answers\<rparr>) containers)
     = removesIssued (removeLegacy env containers)"
  by (simp only: removesIssued_removeLegacy) simp

text \<open>
  The loop followed for \<open>n\<close> iterations: it has gone through the rounds 0 to
  \<open>n - 1\<close>, each with its sleep and its removes.
\<close>

lemma cleanLoop_rounds:
  "cleanLoop n rounds r = concat (map (\<lambda>i. cleanRound (rounds i)) [r..<r + n])"
proof (induction n arbitrary: r)
  case 0
  show ?case by simp
next
  case (Suc n)
  have "[r..<r + Suc n] = r # [Suc r..<Suc r + n]"
    by (subst upt_rec) simp
  with Suc[of "Suc r"] show ?case by simp
qed

lemma cleanLoop_removes:
  "removesIssued (cleanLoop n rounds r)
     = concat (map (\<lambda>i. specRemoves defaultSidecarImage (rounds i)) [r..<r + n])"
proof (induction n arbitrary: r)
  case 0
  show ?case by simp
next
  case (Suc n)
  have "[r..<r + Suc n] = r # [Suc r..<Suc r + n]"
    by (subst upt_rec) simp
  with Suc[of "Suc r"] show ?case
    by (simp add: removesIssued_append cleanRound_removes)
qed

lemma cleanLoop_sleeps:
  "sleeps (cleanLoop n rounds r) = replicate n defaultCleanLegacySidecarPeriod"
  by (induction n arbitrary: r) (simp_all add: sleeps_append cleanRound_sleeps)

text \<open>
  Claim C5, as the code has it.  Called with a nil client the function returns at
  once without a single round.  With a client it has not returned after any number
  \<open>n\<close> of iterations, and has by then gone through \<open>n\<close> rounds.  Every round sleeps
  five minutes and then issues forced removes for exactly the listed containers
  whose image name begins with the fixed name \<open>trust-tunnel-sidecar:latest\<close>, whose
  state is not \<open>running\<close> and whose creation time lies more than one hour before the
  time of the test, and for none when the listing fails; the answers to the removes
  do not change which removes are issued.
\<close>

theorem legacy_sidecar_loop:
  "CleanLegacyContainerPeriodically n None = ([], Returned)
   \<and> CleanLegacyContainerPeriodically n (Some rounds)
       = (concat (map (\<lambda>i. cleanRound (rounds i)) [0..<n]), StillRunning)
   \<and> sleeps (cleanRound env) = [5 * 60 * 1000000000]
   \<and> removesIssued (cleanRound env) = specRemoves defaultSidecarImage env
   \<and> removesIssued (cleanRound (env\<lparr>forceRemove := answers\<rparr>)) = removesIssued (cleanRound env)
   \<and> sleeps (fst (CleanLegacyContainerPeriodically n (Some rounds)))
       = replicate n (5 * 60 * 1000000000)
   \<and> removesIssued (fst (CleanLegacyContainerPeriodically n (Some rounds)))
       = concat (map (\<lambda>i. specRemoves defaultSidecarImage (rounds i)) [0..<n])"
proof (intro conjI)
  show "CleanLegacyContainerPeriodically n None = ([], Returned)"
    by (simp add: CleanLegacyContainerPeriodically_def)
  show "CleanLegacyContainerPeriodically n (Some rounds)
       = (concat (map (\<lambda>i. cleanRound (rounds i)) [0..<n]), StillRunning)"
    using cleanLoop_rounds[of n rounds 0] by (simp add: CleanLegacyContainerPeriodically_def)
  show "sleeps (cleanRound env) = [5 * 60 * 1000000000]"
    by (simp add: cleanRound_sleeps defaultCleanLegacySidecarPeriod_def)
  show "removesIssued (cleanRound env) = specRemoves defaultSidecarImage env"
    by (rule cleanRound_removes)
  show "removesIssued (cleanRound (env\<lparr>forceRemove := answers\<rparr>)) = removesIssued (cleanRound env)"
    using removal_failures_skipped[of answers env]
    by (cases "ContainerList env") (simp_all add: cleanRound_def)
  show "sleeps (fst (CleanLegacyContainerPeriodically n (Some rounds)))
       = replicate n (5 * 60 * 1000000000)"
    by (simp add: CleanLegacyContainerPeriodically_def cleanLoop_sleeps
        defaultCleanLegacySidecarPeriod_def)
  show "removesIssued (fst (CleanLegacyContainerPeriodically n (Some rounds)))
       = concat (map (\<lambda>i. specRemoves defaultSidecarImage (rounds i)) [0..<n])"
    using cleanLoop_removes[of n rounds 0] by (simp add: CleanLegacyContainerPeriodically_def)
qed

text \<open>
  A sidecar image other than the default is configured, and a container of that
  image has been in the state \<open>exited\<close> for two hours: the specification removes it,
  the code does not.  With a nil client the loop does exit.
\<close>

theorem configured_image_counterexample:
  "specRemoves ''registry.local/sidecar:v2''
       (listing [staleSidecar ''s3'' ''registry.local/sidecar:v2'']) = [''s3'']
   \<and> removesIssued (cleanRound (listing [staleSidecar ''s3'' ''registry.local/sidecar:v2''])) = []
   \<and> CleanLegacyContainerPeriodically 1 None = ([], Returned)"
  by (simp add: CleanLegacyContainerPeriodically_def)
     (simp add: specRemoves_def specLegacy_def cleanRound_def listing_def staleSidecar_def
        HasPrefix_def defaultSidecarImage_def Unix_def Hour_def)

text \<open>
  A round on five containers: the failure to remove \<open>s2\<close> does not keep \<open>s6\<close> from
  being removed; the running container and the one created exactly one hour ago
  stay.
\<close>

lemma sidecar_round_example:
  "cleanRound (listing [staleSidecar ''s1'' ''trust-tunnel-sidecar:latest'',
                        staleSidecar ''s2'' ''trust-tunnel-sidecar:latest-x'',
                        \<lparr> ID = ''s4'', Image = ''trust-tunnel-sidecar:latest'', State = ''running'',
                          Created = 0 \<rparr>,
                        \<lparr> ID = ''s5'', Image = ''trust-tunnel-sidecar:latest'', State = ''exited'',
                          Created = 3600 \<rparr>,
                        staleSidecar ''s6'' ''trust-tunnel-sidecar:latest''])
     = [Sleep 300000000000, Removed ''s1'', RemoveFailed ''s2'' ''removal in progress'',
        Removed ''s6'']"
  by (simp add: cleanRound_def listing_def staleSidecar_def defaultCleanLegacySidecarPeriod_def
        HasPrefix_def defaultSidecarImage_def Unix_def Hour_def)

end
